theory Spec2Isabelle
  imports Complex_Main "HOL-Library.Log_Nat" "HOL-Library.AList"
begin

section \<open>JavaScript values used by the auto-reply code\<close>

text \<open>
  An awaited call of the transport or of a collaborator either resolves with a value or
  rejects. The handler never inspects the rejection beyond logging it, so the rejection
  carries no payload.
\<close>

datatype 'a outcome = Throws | Returns 'a

text \<open>
  Identifiers reach the code in three forms: as a JavaScript number, as a native bigint,
  or as an object of the big-integer library that the Telegram client builds its ids from
  (\<open>typeof\<close> gives \<open>'object'\<close>). All carry an integer; an object also has its identity, the
  reference, given here as a number.
\<close>

datatype js_id = Num int | BigInt int | BigInteger nat int

text \<open>
  \<open>Number(b)\<close> of a native bigint \<open>b\<close> is exact up to \<open>2^53\<close> in magnitude and rounds to
  the nearest double (ties to even) beyond: the integer is rounded to 53 significant bits.
\<close>

definition roundToDouble :: "int \<Rightarrow> int" where
  "roundToDouble n =
     (if \<bar>n\<bar> \<le> 2 ^ 53 then n
      else let a = nat \<bar>n\<bar>;
               e = floorlog 2 a - 53;
               q = a div 2 ^ e;
               r = a mod 2 ^ e;
               q' = (if 2 * r > 2 ^ e \<or> (2 * r = 2 ^ e \<and> odd q) then q + 1 else q)
           in sgn n * int (q' * 2 ^ e))"

text \<open>
  \<open>typeof x === 'bigint' ? Number(x) : x\<close>: a native bigint becomes a number, a number and
  an object are left as they are.
\<close>

fun normalize :: "js_id \<Rightarrow> js_id" where
  "normalize (Num n) = Num n"
| "normalize (BigInt n) = Num (roundToDouble n)"
| "normalize (BigInteger ref v) = BigInteger ref v"

text \<open>
  \<open>a === b\<close> on two normalised values: two numbers are equal when their values are, two
  objects when they are the same object, a number and an object never.
\<close>

fun strictEq :: "js_id \<Rightarrow> js_id \<Rightarrow> bool" where
  "strictEq (Num a) (Num b) = (a = b)"
| "strictEq (BigInt a) (BigInt b) = (a = b)"
| "strictEq (BigInteger r v) (BigInteger r' v') = (r = r')"
| "strictEq _ _ = False"

definition sameId :: "js_id \<Rightarrow> js_id \<Rightarrow> bool" where
  "sameId a b = strictEq (normalize a) (normalize b)"

text \<open>The integer an identifier carries.\<close>

fun idValue :: "js_id \<Rightarrow> int" where
  "idValue (Num n) = n"
| "idValue (BigInt n) = n"
| "idValue (BigInteger ref v) = v"

text \<open>Truthiness of an identifier: \<open>0\<close> and \<open>0n\<close> are falsy, an object is truthy.\<close>

fun truthyId :: "js_id \<Rightarrow> bool" where
  "truthyId (Num n) = (n \<noteq> 0)"
| "truthyId (BigInt n) = (n \<noteq> 0)"
| "truthyId (BigInteger ref v) = True"

text \<open>
  \<open>String(n)\<close> of an integer-valued number, \<open>b.toString()\<close> of a bigint and the
  \<open>toString\<close> of a big-integer object: decimal digits.
\<close>

definition digitChar :: "nat \<Rightarrow> char" where
  "digitChar d = ''0123456789'' ! (d mod 10)"

fun digits :: "nat \<Rightarrow> string" where
  "digits n = (if n < 10 then [digitChar n] else digits (n div 10) @ [digitChar (n mod 10)])"

declare digits.simps [simp del]

definition js_String :: "int \<Rightarrow> string" where
  "js_String n = (if n < 0 then CHR ''-'' # digits (nat (- n)) else digits (nat n))"

fun idString :: "js_id \<Rightarrow> string" where
  "idString (Num n) = js_String n"
| "idString (BigInt n) = js_String n"
| "idString (BigInteger ref v) = js_String v"

subsection \<open>Strings: \<open>trim\<close> and the mention pattern\<close>

text \<open>
  A JavaScript string is a list of UTF-16 code units. \<open>codeUnits\<close> writes a string of
  Latin-1 characters as one.
\<close>

type_synonym jsstring = "nat list"

definition codeUnits :: "string \<Rightarrow> jsstring" where
  "codeUnits s = map of_char s"

text \<open>
  The white space and line terminators that \<open>String.prototype.trim\<close> strips: TAB, LF, VT,
  FF, CR, SPACE, NBSP, U+1680, U+2000 to U+200A, U+2028, U+2029, U+202F, U+205F, U+3000 and
  U+FEFF.
\<close>

definition isWhiteSpace :: "nat \<Rightarrow> bool" where
  "isWhiteSpace c =
     (c \<in> {9, 10, 11, 12, 13, 32, 160, 5760, 8232, 8233, 8239, 8287, 12288, 65279} \<or>
      (8192 \<le> c \<and> c \<le> 8202))"

definition trim :: "jsstring \<Rightarrow> jsstring" where
  "trim s = rev (dropWhile isWhiteSpace (rev (dropWhile isWhiteSpace s)))"

text \<open>The regular expression class \<open>\w\<close>: ASCII letters, digits and the underscore.\<close>

definition isWordChar :: "nat \<Rightarrow> bool" where
  "isWordChar c = ((48 \<le> c \<and> c \<le> 57) \<or> (65 \<le> c \<and> c \<le> 90) \<or> c = 95 \<or> (97 \<le> c \<and> c \<le> 122))"

text \<open>
  Case-insensitive comparison of a text code unit with a pattern code unit. The pattern is
  a Telegram username (ASCII letters, digits, underscore), whose canonical form is its ASCII
  upper case; a code unit from 128 on never canonicalises to an ASCII one, so it matches no
  character of a username.
\<close>

definition asciiUpper :: "nat \<Rightarrow> nat" where
  "asciiUpper c = (if 97 \<le> c \<and> c \<le> 122 then c - 32 else c)"

definition ciEq :: "nat \<Rightarrow> nat \<Rightarrow> bool" where
  "ciEq t p = (asciiUpper t = asciiUpper p)"

text \<open>
  \<open>new RegExp(`@${meUsername}\\b`, 'i').test(text)\<close> for a username of word characters: an
  unanchored search for \<open>@\<close> (code unit 64), the username, and a word boundary.
  \<open>matchHere prev ps ts\<close> matches the rest \<open>ps\<close> of the username at \<open>ts\<close>, \<open>prev\<close> being the
  code unit just consumed; at the end of the username the boundary \<open>\b\<close> holds when exactly
  one of \<open>prev\<close> and the next code unit (none at the end of the text) is a word character.
\<close>

fun matchHere :: "nat \<Rightarrow> jsstring \<Rightarrow> jsstring \<Rightarrow> bool" where
  "matchHere prev [] ts = (isWordChar prev \<noteq> (case ts of [] \<Rightarrow> False | t # _ \<Rightarrow> isWordChar t))"
| "matchHere prev (p # ps) [] = False"
| "matchHere prev (p # ps) (t # ts) = (ciEq t p \<and> matchHere t ps ts)"

fun mentionPatternTest :: "jsstring \<Rightarrow> jsstring \<Rightarrow> bool" where
  "mentionPatternTest uname [] = False"
| "mentionPatternTest uname (t # ts) =
     ((t = 64 \<and> matchHere t uname ts) \<or> mentionPatternTest uname ts)"

section \<open>AutoReplyHandler: cooldown store and in-flight guard\<close>

text \<open>
  The handler's two shared collections, and the pending \<open>setTimeout\<close> callbacks that
  \<open>markMessageProcessing\<close> registers (due time and the message key each will delete).
  Times are milliseconds, as \<open>Date.now()\<close> returns them.
\<close>

record handler_state =
  repliedChats :: "string \<rightharpoonup> int"
  processingMessages :: "string set"
  cleanupTimers :: "(int \<times> string) list"

definition emptyHandler :: handler_state where
  "emptyHandler = \<lparr>repliedChats = Map.empty, processingMessages = {}, cleanupTimers = []\<rparr>"

definition getChatKey :: "int \<Rightarrow> string \<Rightarrow> string" where
  "getChatKey accountId chatId = js_String accountId @ ''_'' @ chatId"

definition getMessageKey :: "int \<Rightarrow> string \<Rightarrow> string \<Rightarrow> string" where
  "getMessageKey accountId chatId messageId =
     js_String accountId @ ''_'' @ chatId @ ''_'' @ messageId"

text \<open>
  \<open>hasRepliedToChatRecently\<close> reads the clock, and deletes the entry it finds expired; the
  model returns the answer together with the store.
\<close>

definition hasRepliedToChatRecently ::
  "int \<Rightarrow> int \<Rightarrow> string \<Rightarrow> handler_state \<Rightarrow> bool \<times> handler_state" where
  "hasRepliedToChatRecently now accountId chatId st =
     (let key = getChatKey accountId chatId
      in case repliedChats st key of
           None \<Rightarrow> (False, st)
         | Some lastReplyTime \<Rightarrow>
             let thirtyMinutesAgo = now - 30 * 60 * 1000
             in if lastReplyTime < thirtyMinutesAgo
                then (False, st\<lparr>repliedChats := (repliedChats st)(key := None)\<rparr>)
                else (True, st))"

definition markChatAsReplied :: "int \<Rightarrow> int \<Rightarrow> string \<Rightarrow> handler_state \<Rightarrow> handler_state" where
  "markChatAsReplied now accountId chatId st =
     st\<lparr>repliedChats := (repliedChats st)(getChatKey accountId chatId \<mapsto> now)\<rparr>"

definition isProcessingMessage :: "int \<Rightarrow> string \<Rightarrow> string \<Rightarrow> handler_state \<Rightarrow> bool" where
  "isProcessingMessage accountId chatId messageId st =
     (getMessageKey accountId chatId messageId \<in> processingMessages st)"

definition markMessageProcessing ::
  "int \<Rightarrow> int \<Rightarrow> string \<Rightarrow> string \<Rightarrow> handler_state \<Rightarrow> handler_state" where
  "markMessageProcessing now accountId chatId messageId st =
     (let msgKey = getMessageKey accountId chatId messageId
      in st\<lparr>processingMessages := insert msgKey (processingMessages st),
             cleanupTimers := cleanupTimers st @ [(now + 30000, msgKey)]\<rparr>)"

definition clearMessageProcessing :: "int \<Rightarrow> string \<Rightarrow> string \<Rightarrow> handler_state \<Rightarrow> handler_state" where
  "clearMessageProcessing accountId chatId messageId st =
     st\<lparr>processingMessages := processingMessages st - {getMessageKey accountId chatId messageId}\<rparr>"

text \<open>
  The event loop runs every callback whose delay has elapsed: each deletes its key from
  \<open>processingMessages\<close> and is gone afterwards.
\<close>

definition fireTimers :: "int \<Rightarrow> handler_state \<Rightarrow> handler_state" where
  "fireTimers now st =
     st\<lparr>processingMessages :=
          processingMessages st - snd ` set (filter (\<lambda>(due, k). due \<le> now) (cleanupTimers st)),
        cleanupTimers := filter (\<lambda>(due, k). \<not> due \<le> now) (cleanupTimers st)\<rparr>"

section \<open>Messages, chats and the transport\<close>

text \<open>
  A peer reference (\<open>message.fromId\<close>, \<open>message.senderId\<close>): its \<open>className\<close>, its
  \<open>userId\<close> when it has one, and what its \<open>equals\<close> method answers for the account's
  own identifier when it has that method.
\<close>

record peer =
  peer_className :: string
  peer_userId :: "js_id option"
  peer_equals :: "bool outcome option"

text \<open>A resolved user: only the flag \<open>bot === true\<close> is read.\<close>

record user =
  is_bot :: bool

record msg_entity =
  ent_className :: string
  ent_userId :: "js_id option"

record chat =
  chat_className :: string
  chat_id :: "js_id option"
  megagroup :: bool
  gigagroup :: bool

text \<open>
  The fields that identify the author of a message: all that \<open>isMessageFromSelf\<close> reads,
  of the inbound message and of the message it replies to.
\<close>

record author =
  senderId :: "peer option"
  fromId :: "peer option"

text \<open>
  The inbound message. An absent or empty \<open>text\<close> is the empty string (both are falsy and
  the code only tests truthiness before use); \<open>replyTo\<close> is the truthiness of the reply
  header; \<open>getChat\<close> and \<open>getReplyMessage\<close> are what the two methods resolve to.
\<close>

record message = author +
  out :: bool
  msg_id :: "int option"
  msg_text :: jsstring
  sender :: "user option"
  entities :: "msg_entity list option"
  replyTo :: bool
  replyToMsgId :: "int option"
  getChat :: "chat option outcome"
  getReplyMessage :: "author option outcome"

record me =
  me_id :: js_id
  me_username :: jsstring

record settings =
  autoReplyDmEnabled :: bool
  autoReplyDmMessage :: jsstring
  autoReplyGroupsEnabled :: bool
  autoReplyGroupsMessage :: jsstring

text \<open>
  What is handed to \<open>client.sendMessage\<close>: the target chat and the options object
  (\<open>message\<close>, and \<open>replyTo\<close> when the caller sets it).
\<close>

record outgoing =
  out_chat :: chat
  out_message :: jsstring
  out_replyTo :: "message option"

text \<open>
  The collaborators of one handler run: the client's \<open>getMe\<close>, \<open>getEntity\<close> (by the
  normalised id it is called with), \<open>getMessages\<close> (by chat and message id) and
  \<open>sendMessage\<close>, and
  \<open>configService.getAccountSettings\<close>. Each answers a given query the same way throughout
  one run.
\<close>

record env =
  getMe :: "me outcome"
  getEntity :: "js_id \<Rightarrow> user option outcome"
  getMessages :: "chat option \<Rightarrow> int \<Rightarrow> author option list outcome"
  sendMessage :: "outgoing \<Rightarrow> unit outcome"
  getAccountSettings :: "int \<Rightarrow> settings option outcome"

section \<open>AutoReplyHandler: classification\<close>

text \<open>
  The user id the code extracts from a peer: \<open>userId\<close> of a \<open>PeerUser\<close>, else a truthy
  \<open>userId\<close> of any other object, else nothing.
\<close>

definition extractUserId :: "peer \<Rightarrow> js_id option" where
  "extractUserId p =
     (if peer_className p = ''PeerUser'' then peer_userId p
      else case peer_userId p of
             Some u \<Rightarrow> if truthyId u then Some u else None
           | None \<Rightarrow> None)"

definition sameUser :: "peer \<Rightarrow> js_id \<Rightarrow> bool" where
  "sameUser p meId =
     (case extractUserId p of None \<Rightarrow> False | Some u \<Rightarrow> sameId u meId)"

definition isMessageFromSelf :: "'a author_scheme \<Rightarrow> js_id \<Rightarrow> bool" where
  "isMessageFromSelf message meId =
     (if (case senderId message of None \<Rightarrow> False | Some p \<Rightarrow> sameUser p meId) then True
      else case fromId message of
             None \<Rightarrow> False
           | Some p \<Rightarrow>
               (case peer_equals p of
                  Some (Returns b) \<Rightarrow> b
                | _ \<Rightarrow> sameUser p meId))"

text \<open>
  One entity lookup of \<open>isSenderBot\<close>: it decides the answer (a bot, or a failed lookup,
  which counts as not a bot) or lets the function go on.
\<close>

datatype 'a flow = Return 'a | Continue

definition botLookup :: "env \<Rightarrow> peer \<Rightarrow> bool flow" where
  "botLookup client p =
     (case extractUserId p of
        None \<Rightarrow> Continue
      | Some u \<Rightarrow>
          (case getEntity client (normalize u) of
             Throws \<Rightarrow> Return False
           | Returns None \<Rightarrow> Continue
           | Returns (Some s) \<Rightarrow> if is_bot s then Return True else Continue))"

definition isSenderBot :: "message \<Rightarrow> env \<Rightarrow> bool" where
  "isSenderBot message client =
     (case sender message of
        Some s \<Rightarrow> is_bot s
      | None \<Rightarrow>
          (case (case fromId message of None \<Rightarrow> Continue | Some p \<Rightarrow> botLookup client p) of
             Return b \<Rightarrow> b
           | Continue \<Rightarrow>
               (case (case senderId message of None \<Rightarrow> Continue | Some p \<Rightarrow> botLookup client p) of
                  Return b \<Rightarrow> b
                | Continue \<Rightarrow> False)))"

definition entityMentions :: "js_id \<Rightarrow> msg_entity \<Rightarrow> bool" where
  "entityMentions meId entity =
     ((ent_className entity = ''MessageEntityMentionName'' \<or>
       ent_className entity = ''MessageEntityMention'' \<or>
       ent_userId entity \<noteq> None) \<and>
      (case ent_userId entity of
         None \<Rightarrow> False
       | Some mentionedUserId \<Rightarrow> sameId mentionedUserId meId))"

definition isAccountMentioned :: "message \<Rightarrow> js_id \<Rightarrow> jsstring \<Rightarrow> bool" where
  "isAccountMentioned message meId meUsername =
     (if (case entities message of None \<Rightarrow> False | Some es \<Rightarrow> list_ex (entityMentions meId) es)
      then True
      else msg_text message \<noteq> [] \<and> meUsername \<noteq> [] \<and>
           mentionPatternTest meUsername (msg_text message))"

text \<open>
  Fetching the replied-to message by id (\<open>message.getChat()\<close>, then
  \<open>client.getMessages(chat, { ids: [message.replyToMsgId] })\<close>), done only for a truthy
  \<open>replyToMsgId\<close>. When either call fails the source returns \<open>false\<close> at once, which is
  also its answer when no message was found, so both are \<open>None\<close> here.
\<close>

definition fetchRepliedTo :: "message \<Rightarrow> env \<Rightarrow> author option" where
  "fetchRepliedTo message client =
     (case replyToMsgId message of
        None \<Rightarrow> None
      | Some n \<Rightarrow>
          if n = 0 then None
          else (case getChat message of
                  Throws \<Rightarrow> None
                | Returns chat \<Rightarrow>
                    (case getMessages client chat n of
                       Throws \<Rightarrow> None
                     | Returns messages \<Rightarrow> (case messages of [] \<Rightarrow> None | m # _ \<Rightarrow> m))))"

definition isReplyToAccount :: "message \<Rightarrow> env \<Rightarrow> bool" where
  "isReplyToAccount message client =
     (if \<not> replyTo message \<and> (case replyToMsgId message of None \<Rightarrow> True | Some n \<Rightarrow> n = 0)
      then False
      else
        let repliedToMessage =
              (if replyTo message
               then (case getReplyMessage message of
                       Returns r \<Rightarrow> r
                     | Throws \<Rightarrow> fetchRepliedTo message client)
               else fetchRepliedTo message client)
        in case repliedToMessage of
             None \<Rightarrow> False
           | Some r \<Rightarrow>
               (case getMe client of
                  Throws \<Rightarrow> False
                | Returns me \<Rightarrow> isMessageFromSelf r (me_id me)))"

section \<open>AutoReplyHandler: \<open>handleIncomingMessage\<close>\<close>

text \<open>
  The handler suspends at every \<open>await\<close>. Three stretches of it touch the shared
  collections, and each runs without suspension:
  \<^item> \<open>admit\<close>, from the entry to the \<open>isProcessingMessage\<close> check;
  \<^item> \<open>dispatch\<close>, from the resolution of \<open>getAccountSettings\<close> (and, for a group, of the two
    trigger checks) to the call of \<open>sendMessage\<close>: the cooldown lookup and
    \<open>markMessageProcessing\<close>;
  \<^item> \<open>complete\<close>, from the settlement of \<open>sendMessage\<close> to the return: \<open>markChatAsReplied\<close>
    and \<open>clearMessageProcessing\<close>.
  Any exception outside the inner \<open>try\<close> blocks reaches the outer \<open>catch\<close>, which returns
  (\<open>Failed\<close>). Every other way out before a send is one of the source's \<open>return\<close>
  statements, named by a \<open>skip\<close>.
\<close>

datatype skip =
    NoMessage | OutgoingMessage | FromSelf | FromBot | EmptyText | NoChat | NoChatId
  | NoMessageId | AlreadyProcessing | NoSettings | OnCooldown | NotTriggered | NoSurface
  | Failed

record admitted =
  adm_message :: message
  adm_me :: me
  adm_chat :: chat
  adm_chatId :: string
  adm_messageId :: string

definition admit :: "env \<Rightarrow> message option \<Rightarrow> int \<Rightarrow> handler_state \<Rightarrow> skip + admitted" where
  "admit client event accountId st =
     (case event of
        None \<Rightarrow> Inl NoMessage
      | Some message \<Rightarrow>
          if out message then Inl OutgoingMessage
          else (case getMe client of
                  Throws \<Rightarrow> Inl Failed
                | Returns me \<Rightarrow>
                    if isMessageFromSelf message (me_id me) then Inl FromSelf
                    else if isSenderBot message client then Inl FromBot
                    else if msg_text message = [] \<or> length (trim (msg_text message)) = 0
                    then Inl EmptyText
                    else (case getChat message of
                            Throws \<Rightarrow> Inl Failed
                          | Returns None \<Rightarrow> Inl NoChat
                          | Returns (Some chat) \<Rightarrow>
                              (case chat_id chat of
                                 None \<Rightarrow> Inl NoChatId
                               | Some cid \<Rightarrow>
                                   let chatId = idString cid
                                   in if chatId = [] then Inl NoChatId
                                      else (case msg_id message of
                                              None \<Rightarrow> Inl NoMessageId
                                            | Some mid \<Rightarrow>
                                                if mid = 0 then Inl NoMessageId
                                                else
                                                  let messageId = js_String mid
                                                  in if isProcessingMessage accountId chatId messageId st
                                                     then Inl AlreadyProcessing
                                                     else Inr \<lparr>adm_message = message, adm_me = me,
                                                                adm_chat = chat, adm_chatId = chatId,
                                                                adm_messageId = messageId\<rparr>)))))"

definition isDM :: "chat \<Rightarrow> bool" where
  "isDM chat = (chat_className chat = ''User'')"

definition isGroup :: "chat \<Rightarrow> bool" where
  "isGroup chat =
     (chat_className chat = ''Chat'' \<or> chat_className chat = ''Channel'' \<or>
      megagroup chat \<or> gigagroup chat)"

datatype surface = DirectMessage | GroupMessage

record pending =
  pend_surface :: surface
  pend_chatId :: string
  pend_messageId :: string
  pend_out :: outgoing

definition dispatch ::
  "env \<Rightarrow> int \<Rightarrow> admitted \<Rightarrow> int \<Rightarrow> handler_state \<Rightarrow> handler_state \<times> (skip + pending)" where
  "dispatch client accountId a now st =
     (let message = adm_message a; me = adm_me a; chat = adm_chat a;
          chatId = adm_chatId a; messageId = adm_messageId a
      in case getAccountSettings client accountId of
           Throws \<Rightarrow> (st, Inl Failed)
         | Returns None \<Rightarrow> (st, Inl NoSettings)
         | Returns (Some settings) \<Rightarrow>
             if isDM chat \<and> autoReplyDmEnabled settings \<and> autoReplyDmMessage settings \<noteq> [] then
               (case hasRepliedToChatRecently now accountId chatId st of
                  (True, st1) \<Rightarrow> (st1, Inl OnCooldown)
                | (False, st1) \<Rightarrow>
                    (markMessageProcessing now accountId chatId messageId st1,
                     Inr \<lparr>pend_surface = DirectMessage, pend_chatId = chatId,
                          pend_messageId = messageId,
                          pend_out = \<lparr>out_chat = chat,
                                      out_message = autoReplyDmMessage settings,
                                      out_replyTo = None\<rparr>\<rparr>))
             else if isGroup chat \<and> autoReplyGroupsEnabled settings \<and>
                     autoReplyGroupsMessage settings \<noteq> [] then
               (let isMentioned = isAccountMentioned message (me_id me) (me_username me);
                    isReply = isReplyToAccount message client
                in if \<not> isMentioned \<and> \<not> isReply then (st, Inl NotTriggered)
                   else
                     (markMessageProcessing now accountId chatId messageId st,
                      Inr \<lparr>pend_surface = GroupMessage, pend_chatId = chatId,
                           pend_messageId = messageId,
                           pend_out = \<lparr>out_chat = chat,
                                       out_message = autoReplyGroupsMessage settings,
                                       out_replyTo = None\<rparr>\<rparr>))
             else (st, Inl NoSurface))"

definition complete ::
  "env \<Rightarrow> int \<Rightarrow> pending \<Rightarrow> int \<Rightarrow> handler_state \<Rightarrow> handler_state" where
  "complete client accountId p now st =
     (let st1 = (case sendMessage client (pend_out p) of
                   Returns _ \<Rightarrow>
                     (case pend_surface p of
                        DirectMessage \<Rightarrow> markChatAsReplied now accountId (pend_chatId p) st
                      | GroupMessage \<Rightarrow> st)
                 | Throws \<Rightarrow> st)
      in clearMessageProcessing accountId (pend_chatId p) (pend_messageId p) st1)"

text \<open>
  One handler run with nothing else scheduled in between: the cooldown lookup and the
  acquisition of the marker happen at \<open>tDispatch\<close>, the send settles at \<open>tDone\<close>. The result
  is the handler state and the calls of \<open>sendMessage\<close> that were made.
\<close>

definition handleIncomingMessage ::
  "env \<Rightarrow> message option \<Rightarrow> int \<Rightarrow> int \<Rightarrow> int \<Rightarrow> handler_state \<Rightarrow> handler_state \<times> outgoing list" where
  "handleIncomingMessage client event accountId tDispatch tDone st =
     (case admit client event accountId st of
        Inl _ \<Rightarrow> (st, [])
      | Inr a \<Rightarrow>
          (case dispatch client accountId a tDispatch st of
             (st1, Inl _) \<Rightarrow> (st1, [])
           | (st1, Inr p) \<Rightarrow> (complete client accountId p tDone st1, [pend_out p])))"

subsection \<open>Interleaved handler runs\<close>

text \<open>
  The runtime is single-threaded and cooperative: between two suspension points a handler
  runs alone, and at a suspension point any other handler, or a due timer, may run. A task
  is one handler invocation, known by the stretch it will run next.
\<close>

datatype task = Arrived "message option" | Admitted admitted | Sending pending | Finished

fun taskStep :: "env \<Rightarrow> int \<Rightarrow> int \<Rightarrow> task \<Rightarrow> handler_state \<Rightarrow> task \<times> handler_state \<times> outgoing list" where
  "taskStep client accountId now (Arrived event) st =
     (case admit client event accountId st of
        Inl _ \<Rightarrow> (Finished, st, [])
      | Inr a \<Rightarrow> (Admitted a, st, []))"
| "taskStep client accountId now (Admitted a) st =
     (case dispatch client accountId a now st of
        (st1, Inl _) \<Rightarrow> (Finished, st1, [])
      | (st1, Inr p) \<Rightarrow> (Sending p, st1, [pend_out p]))"
| "taskStep client accountId now (Sending p) st =
     (Finished, complete client accountId p now st, [])"
| "taskStep client accountId now Finished st = (Finished, st, [])"

text \<open>
  A schedule names, step by step, which task runs its next stretch and at what time, or
  that the due timers run. It is applied to the tasks, the handler state and the sends made
  so far.
\<close>

datatype sched = Run nat int | Timers int

fun schedStep ::
  "env \<Rightarrow> int \<Rightarrow> sched \<Rightarrow> task list \<times> handler_state \<times> outgoing list \<Rightarrow>
   task list \<times> handler_state \<times> outgoing list" where
  "schedStep client accountId (Run i now) (tasks, st, sent) =
     (if i < length tasks
      then (case taskStep client accountId now (tasks ! i) st of
              (t, st1, outs) \<Rightarrow> (tasks[i := t], st1, sent @ outs))
      else (tasks, st, sent))"
| "schedStep client accountId (Timers now) (tasks, st, sent) = (tasks, fireTimers now st, sent)"

definition runSchedule ::
  "env \<Rightarrow> int \<Rightarrow> sched list \<Rightarrow> task list \<times> handler_state \<times> outgoing list \<Rightarrow>
   task list \<times> handler_state \<times> outgoing list" where
  "runSchedule client accountId schedule sys = foldl (\<lambda>s e. schedStep client accountId e s) sys schedule"

text \<open>The latest time a schedule mentions, from a given start.\<close>

fun schedTime :: "sched \<Rightarrow> int" where
  "schedTime (Run i now) = now"
| "schedTime (Timers now) = now"

section \<open>AutoReplyRealtimeService (event-driven): presence cycle and health check\<close>

definition OFFLINE_INTERVAL_MIN :: int where
  "OFFLINE_INTERVAL_MIN = 8000"

definition OFFLINE_INTERVAL_MAX :: int where
  "OFFLINE_INTERVAL_MAX = 12000"

definition HEALTH_CHECK_INTERVAL :: int where
  "HEALTH_CHECK_INTERVAL = 120000"

text \<open>
  \<open>Math.random()\<close> returns a double \<open>random\<close> with \<open>0 \<le> random < 1\<close>. Such a double is
  \<open>m / 2^j\<close> for an integer \<open>m\<close> of at most 53 bits and an exponent \<open>j\<close> of at most 1074;
  a draw is given by the pair \<open>(m, j)\<close>.
\<close>

type_synonym draw = "nat \<times> nat"


text \<open>
  \<open>Math.floor(Math.random() * (MAX - MIN + 1)) + MIN\<close>, as a function of what
  \<open>Math.random()\<close> returned, in double arithmetic. The product of \<open>m / 2^j\<close> and the
  integer \<open>MAX - MIN + 1\<close> is the exact product rounded to 53 significant bits, that is
  \<open>roundToDouble (m * (MAX - MIN + 1)) / 2^j\<close> (a product small enough to be subnormal is
  below \<open>2^53 / 2^j\<close> and a multiple of \<open>1 / 2^1074\<close>, so it is exact); \<open>Math.floor\<close> of it is
  the integer quotient; the sum with \<open>MIN\<close> is a sum of small integers and exact.
\<close>

definition getRandomOfflineInterval :: "draw \<Rightarrow> int" where
  "getRandomOfflineInterval random =
     (case random of (m, j) \<Rightarrow>
        roundToDouble (int m * (OFFLINE_INTERVAL_MAX - OFFLINE_INTERVAL_MIN + 1)) div 2 ^ j +
        OFFLINE_INTERVAL_MIN)"

text \<open>
  A registry entry: whether \<open>account.client && account.client.connected\<close> holds, the
  owner's user id, and the two time stamps. The registry is the \<open>Map\<close>
  \<open>connectedAccounts\<close> in insertion order; its keys are \<open>accountId.toString()\<close>, which
  \<open>parseInt\<close> maps back to the account id, so the model keys it by the number.
\<close>

record account =
  client_connected :: bool
  acc_userId :: int
  lastHealthCheck :: int
  lastActivity :: int

type_synonym registry = "(int \<times> account) list"

text \<open>
  The service's two timer fields hold what is pending: the due time of the \<open>setTimeout\<close> of
  the presence cycle, and the next due time of the \<open>setInterval\<close> of the health check.
\<close>

record service =
  connectedAccounts :: registry
  offlineInterval :: "int option"
  healthCheckInterval :: "int option"

definition newService :: service where
  "newService = \<lparr>connectedAccounts = [], offlineInterval = None, healthCheckInterval = None\<rparr>"

text \<open>
  The collaborators of the service, by account id: the settings, the user ids of the
  account's rows in the database, \<open>accountLinker.getClientAndConnect\<close> (no client, or a
  client and whether it is connected), the first and second \<open>setupAutoReply\<close> and
  \<open>verifyHandlerRegistered\<close> of one \<open>connectAccount\<close>, the invocations of \<open>UpdateStatus\<close>
  of one \<open>setOfflineStatus\<close>, and the clock when \<open>connectAccount\<close> stores the entry.
\<close>

record svc_env =
  settingsOf :: "int \<Rightarrow> settings option outcome"
  userRows :: "int \<Rightarrow> int list outcome"
  getClientAndConnect :: "int \<Rightarrow> int \<Rightarrow> bool option outcome"
  setupAutoReply :: "int \<Rightarrow> nat \<Rightarrow> unit outcome"
  verifyHandlerRegistered :: "int \<Rightarrow> nat \<Rightarrow> bool"
  updateStatus :: "int \<Rightarrow> nat \<Rightarrow> unit outcome"
  dateNow :: "int \<Rightarrow> int"

text \<open>
  The calls a loop of the service makes, as they appear in a trace: the invocations of
  \<open>UpdateStatus({ offline: true })\<close> of its own \<open>setOfflineStatus\<close>, \<open>connectAccount\<close>, and
  \<open>performHealthCheck\<close>.
\<close>

datatype svc_call = UpdateStatusOffline int | ConnectAccount int | PerformHealthCheck


definition disconnectAccount :: "int \<Rightarrow> registry \<Rightarrow> registry" where
  "disconnectAccount accountId reg = AList.delete accountId reg"

definition hasAutoReply :: "settings \<Rightarrow> bool" where
  "hasAutoReply settings =
     (let hasDmAutoReply = (autoReplyDmEnabled settings \<and> autoReplyDmMessage settings \<noteq> [] \<and>
                            length (trim (autoReplyDmMessage settings)) > 0);
          hasGroupsAutoReply = (autoReplyGroupsEnabled settings \<and>
                                autoReplyGroupsMessage settings \<noteq> [] \<and>
                                length (trim (autoReplyGroupsMessage settings)) > 0)
      in hasDmAutoReply \<or> hasGroupsAutoReply)"

text \<open>
  The client \<open>connectAccount\<close> works with: the registered one when it is connected, else
  the one \<open>getClientAndConnect\<close> returns. \<open>Returns False\<close> is the early \<open>return false\<close>
  for a missing or unconnected client.
\<close>

definition clientFor :: "svc_env \<Rightarrow> int \<Rightarrow> int \<Rightarrow> registry \<Rightarrow> bool outcome" where
  "clientFor w userId accountId reg =
     (if (case map_of reg accountId of None \<Rightarrow> False | Some existing \<Rightarrow> client_connected existing)
      then Returns True
      else (case getClientAndConnect w userId accountId of
              Throws \<Rightarrow> Throws
            | Returns None \<Rightarrow> Returns False
            | Returns (Some c) \<Rightarrow> Returns c))"

text \<open>
  Handler registration with one retry; \<open>False\<close> stands for the exception that ends in the
  \<open>catch\<close> of \<open>connectAccount\<close>.
\<close>

definition registerHandler :: "svc_env \<Rightarrow> int \<Rightarrow> bool" where
  "registerHandler w accountId =
     (case setupAutoReply w accountId 0 of
        Throws \<Rightarrow> False
      | Returns _ \<Rightarrow>
          if verifyHandlerRegistered w accountId 0 then True
          else (case setupAutoReply w accountId 1 of
                  Throws \<Rightarrow> False
                | Returns _ \<Rightarrow> verifyHandlerRegistered w accountId 1))"

text \<open>
  \<open>connectAccount\<close>: every failure inside is caught, and answered by \<open>disconnectAccount\<close>.
  The result is the registry afterwards.
\<close>

definition connectAccount :: "svc_env \<Rightarrow> int \<Rightarrow> registry \<Rightarrow> registry" where
  "connectAccount w accountId reg =
     (case settingsOf w accountId of
        Throws \<Rightarrow> disconnectAccount accountId reg
      | Returns None \<Rightarrow> disconnectAccount accountId reg
      | Returns (Some settings) \<Rightarrow>
          if \<not> hasAutoReply settings then disconnectAccount accountId reg
          else (case userRows w accountId of
                  Throws \<Rightarrow> disconnectAccount accountId reg
                | Returns [] \<Rightarrow> disconnectAccount accountId reg
                | Returns (userId # _) \<Rightarrow>
                    (case clientFor w userId accountId reg of
                       Throws \<Rightarrow> disconnectAccount accountId reg
                     | Returns False \<Rightarrow> reg
                     | Returns True \<Rightarrow>
                         if registerHandler w accountId
                         then AList.update accountId
                                \<lparr>client_connected = True, acc_userId = userId,
                                 lastHealthCheck = dateNow w accountId,
                                 lastActivity = dateNow w accountId\<rparr> reg
                         else disconnectAccount accountId reg)))"


text \<open>
  \<open>scheduleNext\<close> draws a fresh interval and arms one \<open>setTimeout\<close>;
  \<open>startOfflineStatusLoop\<close> clears the pending one, if any, and calls it.
\<close>

definition scheduleNext :: "int \<Rightarrow> draw \<Rightarrow> service \<Rightarrow> service" where
  "scheduleNext now random svc =
     (let nextInterval = getRandomOfflineInterval random
      in svc\<lparr>offlineInterval := Some (now + nextInterval)\<rparr>)"

definition startOfflineStatusLoop :: "int \<Rightarrow> draw \<Rightarrow> service \<Rightarrow> service" where
  "startOfflineStatusLoop now random svc = scheduleNext now random (svc\<lparr>offlineInterval := None\<rparr>)"


text \<open>
  \<open>startHealthCheckLoop\<close> clears the running interval, if any, and arms
  \<open>setInterval(performHealthCheck, HEALTH_CHECK_INTERVAL)\<close>. It calls nothing itself.
\<close>

definition startHealthCheckLoop :: "int \<Rightarrow> service \<Rightarrow> service" where
  "startHealthCheckLoop now svc = svc\<lparr>healthCheckInterval := Some (now + HEALTH_CHECK_INTERVAL)\<rparr>"

text \<open>The first \<open>n\<close> times at which the armed interval calls \<open>performHealthCheck\<close>.\<close>

definition healthCheckTimes :: "service \<Rightarrow> nat \<Rightarrow> int list" where
  "healthCheckTimes svc n =
     (case healthCheckInterval svc of
        None \<Rightarrow> []
      | Some due \<Rightarrow> map (\<lambda>k. due + int k * HEALTH_CHECK_INTERVAL) [0..<n])"

text \<open>
  \<open>start\<close>: the database lists the accounts with auto-reply enabled; each is connected in
  turn; then the two loops are started, at time \<open>now\<close>. A failing query is caught and
  logged, and then neither loop is started. The result is the service and the calls made
  before \<open>start\<close> returns.
\<close>

definition start :: "svc_env \<Rightarrow> int list outcome \<Rightarrow> int \<Rightarrow> draw \<Rightarrow> service \<Rightarrow> service \<times> svc_call list" where
  "start w query now random svc =
     (case query of
        Throws \<Rightarrow> (svc, [])
      | Returns rows \<Rightarrow>
          (startHealthCheckLoop now
             (startOfflineStatusLoop now random
                (svc\<lparr>connectedAccounts :=
                       foldl (\<lambda>reg accountId. connectAccount w accountId reg)
                         (connectedAccounts svc) rows\<rparr>)),
           map ConnectAccount rows))"

section \<open>AutoReplyRealtimeService (polling): sending the reply\<close>

text \<open>
  After the random delay: reconnect when the client is not connected, then send
  \<open>{ message: replyMessage }\<close> with \<open>replyTo\<close> set to the original message when one is
  given. Every failure is caught and logged. The result is the calls of \<open>sendMessage\<close>.
\<close>

definition sendReplyWithDelay ::
  "bool \<Rightarrow> unit outcome \<Rightarrow> chat \<Rightarrow> jsstring \<Rightarrow> message option \<Rightarrow> outgoing list" where
  "sendReplyWithDelay isConnected reconnect chat replyMessage originalMessage =
     (if \<not> isConnected \<and> reconnect = Throws then []
      else [\<lparr>out_chat = chat, out_message = replyMessage, out_replyTo = originalMessage\<rparr>])"

text \<open>
  The end of the body of \<open>pollAccount\<close> for one dialog, reached when the last message of
  the chat has passed the filters: a direct message is answered with no original message
  passed on; a group message is answered, with the message itself passed on, when the
  mention and reply checks of \<open>pollAccount\<close> said so (\<open>shouldReply\<close>). For the polling
  service a group is a \<open>Chat\<close> or a chat flagged \<open>megagroup\<close> or \<open>gigagroup\<close>.
\<close>

definition pollReply ::
  "bool \<Rightarrow> unit outcome \<Rightarrow> settings \<Rightarrow> chat \<Rightarrow> message \<Rightarrow> bool \<Rightarrow> outgoing list" where
  "pollReply isConnected reconnect settings chat lastMessage shouldReply =
     (if chat_className chat = ''User''
      then sendReplyWithDelay isConnected reconnect chat (autoReplyDmMessage settings) None
      else if chat_className chat = ''Chat'' \<or> megagroup chat \<or> gigagroup chat
      then (if shouldReply
            then sendReplyWithDelay isConnected reconnect chat (autoReplyGroupsMessage settings)
                   (Some lastMessage)
            else [])
      else [])"

section \<open>An invariant of the in-flight guard\<close>

text \<open>
  Every marker has a pending cleanup timer that is due within 30 seconds of time \<open>T\<close>.
\<close>

definition markersCovered :: "int \<Rightarrow> handler_state \<Rightarrow> bool" where
  "markersCovered T st =
     (\<forall>k\<in>processingMessages st. \<exists>due. (due, k) \<in> set (cleanupTimers st) \<and> due \<le> T + 30000)"

section \<open>The scenario of the specification\<close>

text \<open>
  Account 123 answers direct messages with ``Away right now'' and group triggers with
  ``Busy''; its own identity is user 777, \<open>@alice\<close>. Identifiers are objects, as the client
  library builds them, each its own object. Chat 555 is a one-to-one chat, chat
  \<open>-1001\<close> a supergroup (a channel flagged \<open>megagroup\<close>). The transport answers every query; \<open>sendMessage\<close> succeeds or fails
  as \<open>sendOk\<close> says. For the service, every collaborator answers, or every one fails.
\<close>

definition demoMe :: me where
  "demoMe = \<lparr>me_id = BigInteger 1 777, me_username = codeUnits ''alice''\<rparr>"

definition demoSettings :: settings where
  "demoSettings =
     \<lparr>autoReplyDmEnabled = True, autoReplyDmMessage = codeUnits ''Away right now'',
      autoReplyGroupsEnabled = True, autoReplyGroupsMessage = codeUnits ''Busy''\<rparr>"

definition demoClient :: "bool \<Rightarrow> env" where
  "demoClient sendOk =
     \<lparr>getMe = Returns demoMe,
      getEntity = (\<lambda>_. Returns None),
      getMessages = (\<lambda>_ _. Returns []),
      sendMessage = (\<lambda>_. if sendOk then Returns () else Throws),
      getAccountSettings = (\<lambda>_. Returns (Some demoSettings))\<rparr>"

definition demoUser :: chat where
  "demoUser = \<lparr>chat_className = ''User'', chat_id = Some (BigInteger 3 555), megagroup = False, gigagroup = False\<rparr>"

definition demoChannel :: chat where
  "demoChannel =
     \<lparr>chat_className = ''Channel'', chat_id = Some (BigInteger 4 (- 1001)), megagroup = True, gigagroup = False\<rparr>"

definition demoPeer :: "int \<Rightarrow> peer" where
  "demoPeer n = \<lparr>peer_className = ''PeerUser'', peer_userId = Some (BigInteger 2 n), peer_equals = None\<rparr>"

definition demoMessage :: "chat \<Rightarrow> int \<Rightarrow> string \<Rightarrow> message" where
  "demoMessage chat n txt =
     \<lparr>senderId = None, fromId = Some (demoPeer 555),
      out = False, msg_id = Some n, msg_text = codeUnits txt, sender = None, entities = None,
      replyTo = False, replyToMsgId = None,
      getChat = Returns (Some chat), getReplyMessage = Returns None\<rparr>"

definition demoDmReply :: outgoing where
  "demoDmReply = \<lparr>out_chat = demoUser, out_message = codeUnits ''Away right now'', out_replyTo = None\<rparr>"

text \<open>
  For the checks of identity: the one-to-one chat of the account with itself (Saved
  Messages); the \<open>senderId\<close> of a message as the client library delivers it (the id
  itself, which has neither \<open>className\<close> nor \<open>userId\<close>), and the two author fields of a
  message written by a user, \<open>fromId\<close> being a \<open>PeerUser\<close> without an \<open>equals\<close> method; the
  same transport with the account's id given as a native bigint, and a peer whose id is a
  number; and a transport for which user 999 resolves to a bot.
\<close>

definition demoSaved :: chat where
  "demoSaved = \<lparr>chat_className = ''User'', chat_id = Some (BigInteger 5 777), megagroup = False, gigagroup = False\<rparr>"

definition demoSenderId :: peer where
  "demoSenderId = \<lparr>peer_className = [], peer_userId = None, peer_equals = None\<rparr>"

definition demoOwnMessage :: "peer \<Rightarrow> author" where
  "demoOwnMessage p = \<lparr>senderId = Some demoSenderId, fromId = Some p\<rparr>"

definition demoNativeClient :: env where
  "demoNativeClient = (demoClient True)\<lparr>getMe := Returns (demoMe\<lparr>me_id := BigInt 777\<rparr>)\<rparr>"

definition demoNativePeer :: "int \<Rightarrow> peer" where
  "demoNativePeer n = \<lparr>peer_className = ''PeerUser'', peer_userId = Some (Num n), peer_equals = None\<rparr>"

definition demoBotClient :: env where
  "demoBotClient =
     (demoClient True)\<lparr>getEntity := (\<lambda>u. if idValue u = 999 then Returns (Some \<lparr>is_bot = True\<rparr>)
                                         else Returns None)\<rparr>"

definition demoGroupReply :: outgoing where
  "demoGroupReply = \<lparr>out_chat = demoChannel, out_message = codeUnits ''Busy'', out_replyTo = None\<rparr>"


definition demoSvcEnv :: "bool \<Rightarrow> svc_env" where
  "demoSvcEnv ok =
     \<lparr>settingsOf = (\<lambda>_. if ok then Returns (Some demoSettings) else Throws),
      userRows = (\<lambda>_. if ok then Returns [42] else Throws),
      getClientAndConnect = (\<lambda>_ _. if ok then Returns (Some True) else Throws),
      setupAutoReply = (\<lambda>_ _. if ok then Returns () else Throws),
      verifyHandlerRegistered = (\<lambda>_ _. ok),
      updateStatus = (\<lambda>_ _. if ok then Returns () else Throws),
      dateNow = (\<lambda>_. 0)\<rparr>"

section \<open>Evaluation rules\<close>

lemmas demo_defs =
  demoMe_def demoSettings_def demoClient_def demoUser_def demoChannel_def demoPeer_def
  demoMessage_def demoDmReply_def codeUnits_def

lemmas demo_id_defs =
  demoSaved_def demoSenderId_def demoOwnMessage_def demoNativeClient_def demoNativePeer_def demoBotClient_def
  demoGroupReply_def

lemmas str_defs = js_String_def digits.simps digitChar_def getChatKey_def getMessageKey_def

lemmas cls_defs =
  isMessageFromSelf_def sameUser_def sameId_def extractUserId_def isSenderBot_def botLookup_def
  roundToDouble_def trim_def isWhiteSpace_def isDM_def isGroup_def isAccountMentioned_def
  isReplyToAccount_def fetchRepliedTo_def entityMentions_def ciEq_def asciiUpper_def
  isWordChar_def codeUnits_def

lemmas st_defs =
  emptyHandler_def hasRepliedToChatRecently_def markChatAsReplied_def isProcessingMessage_def
  markMessageProcessing_def clearMessageProcessing_def fireTimers_def

lemmas run_defs = handleIncomingMessage_def admit_def dispatch_def complete_def Let_def

section \<open>The stretches of the handler\<close>

lemma codeUnits_Nil [simp]: "codeUnits s = [] \<longleftrightarrow> s = []"
  by (simp add: codeUnits_def)

lemma admit_Inr_iff:
  "admit client event accountId st = Inr a \<Longrightarrow>
     \<exists>message me chat cid mid.
       event = Some message \<and> \<not> out message \<and> getMe client = Returns me \<and>
       \<not> isMessageFromSelf message (me_id me) \<and> \<not> isSenderBot message client \<and>
       trim (msg_text message) \<noteq> [] \<and> getChat message = Returns (Some chat) \<and>
       chat_id chat = Some cid \<and> msg_id message = Some mid \<and> mid \<noteq> 0 \<and>
       a = \<lparr>adm_message = message, adm_me = me, adm_chat = chat,
             adm_chatId = idString cid, adm_messageId = js_String mid\<rparr> \<and>
       getMessageKey accountId (idString cid) (js_String mid) \<notin> processingMessages st"
  unfolding admit_def isProcessingMessage_def
  by (auto simp: Let_def split: option.splits outcome.splits if_splits)

lemma admit_not_processing:
  "admit client event accountId st = Inr a \<Longrightarrow>
     getMessageKey accountId (adm_chatId a) (adm_messageId a) \<notin> processingMessages st"
  by (drule admit_Inr_iff) auto

lemma admit_repliedChats [simp]:
  "admit client event accountId (st\<lparr>repliedChats := rc\<rparr>) = admit client event accountId st"
  by (auto simp: admit_def isProcessingMessage_def Let_def split: option.splits outcome.splits)

lemma lookup_expired:
  assumes "repliedChats st (getChatKey accountId chatId) = Some t0" and "t0 + 1800000 < t1"
  shows "hasRepliedToChatRecently t1 accountId chatId st =
           (False, st\<lparr>repliedChats := (repliedChats st)(getChatKey accountId chatId := None)\<rparr>)"
  using assms by (simp add: hasRepliedToChatRecently_def Let_def)

lemma lookup_absent:
  assumes "repliedChats st (getChatKey accountId chatId) = None"
  shows "hasRepliedToChatRecently t1 accountId chatId st = (False, st)"
  using assms by (simp add: hasRepliedToChatRecently_def Let_def)

lemma lookup_fresh:
  assumes "repliedChats st (getChatKey accountId chatId) = Some t0" and "t1 \<le> t0 + 1800000"
  shows "hasRepliedToChatRecently t1 accountId chatId st = (True, st)"
  using assms by (simp add: hasRepliedToChatRecently_def Let_def)

lemma dispatch_dm_cooldown:
  assumes "isDM (adm_chat a)"
    and "getAccountSettings client accountId = Returns (Some s)"
    and "autoReplyDmEnabled s" and "autoReplyDmMessage s \<noteq> []"
    and "repliedChats st (getChatKey accountId (adm_chatId a)) = Some t0"
    and "t1 \<le> t0 + 1800000"
  shows "dispatch client accountId a t1 st = (st, Inl OnCooldown)"
  using assms by (simp add: dispatch_def hasRepliedToChatRecently_def Let_def)

lemma dispatch_dm_clear:
  assumes "isDM (adm_chat a)"
    and "getAccountSettings client accountId = Returns (Some s)"
    and "autoReplyDmEnabled s" and "autoReplyDmMessage s \<noteq> []"
    and "fst (hasRepliedToChatRecently t1 accountId (adm_chatId a) st) = False"
  shows "dispatch client accountId a t1 st =
           (markMessageProcessing t1 accountId (adm_chatId a) (adm_messageId a)
              (snd (hasRepliedToChatRecently t1 accountId (adm_chatId a) st)),
            Inr \<lparr>pend_surface = DirectMessage, pend_chatId = adm_chatId a,
                 pend_messageId = adm_messageId a,
                 pend_out = \<lparr>out_chat = adm_chat a, out_message = autoReplyDmMessage s,
                             out_replyTo = None\<rparr>\<rparr>)"
  using assms
  by (cases "hasRepliedToChatRecently t1 accountId (adm_chatId a) st") (simp add: dispatch_def Let_def)

lemma dispatch_dm_blocked:
  assumes "isDM (adm_chat a)"
    and "getAccountSettings client accountId = Returns (Some s)"
    and "autoReplyDmEnabled s" and "autoReplyDmMessage s \<noteq> []"
    and "fst (hasRepliedToChatRecently t1 accountId (adm_chatId a) st)"
  shows "dispatch client accountId a t1 st =
           (snd (hasRepliedToChatRecently t1 accountId (adm_chatId a) st), Inl OnCooldown)"
  using assms
  by (cases "hasRepliedToChatRecently t1 accountId (adm_chatId a) st") (simp add: dispatch_def Let_def)

lemma admit_Some_fields:
  assumes "admit client (Some message) accountId st = Inr a"
    and "getMe client = Returns me" and "getChat message = Returns (Some chat)"
  shows "adm_message a = message \<and> adm_me a = me \<and> adm_chat a = chat"
  using admit_Inr_iff[OF assms(1)] assms(2,3) by auto

lemma dispatch_group:
  assumes "\<not> isDM (adm_chat a)" and "isGroup (adm_chat a)"
    and "getAccountSettings client accountId = Returns (Some s)"
    and "autoReplyGroupsEnabled s" and "autoReplyGroupsMessage s \<noteq> []"
  shows "dispatch client accountId a now st =
           (if isAccountMentioned (adm_message a) (me_id (adm_me a)) (me_username (adm_me a)) \<or>
               isReplyToAccount (adm_message a) client
            then (markMessageProcessing now accountId (adm_chatId a) (adm_messageId a) st,
                  Inr \<lparr>pend_surface = GroupMessage, pend_chatId = adm_chatId a,
                       pend_messageId = adm_messageId a,
                       pend_out = \<lparr>out_chat = adm_chat a, out_message = autoReplyGroupsMessage s,
                                   out_replyTo = None\<rparr>\<rparr>)
            else (st, Inl NotTriggered))"
  using assms by (simp add: dispatch_def Let_def)

lemma dispatch_not_dm_untriggered:
  assumes "\<not> isDM (adm_chat a)"
    and "\<not> isAccountMentioned (adm_message a) (me_id (adm_me a)) (me_username (adm_me a))"
    and "\<not> isReplyToAccount (adm_message a) client"
  shows "\<exists>r. dispatch client accountId a now st = (st, Inl r)"
  using assms by (simp add: dispatch_def Let_def split: outcome.splits option.splits)

lemma isAccountMentioned_iff:
  "isAccountMentioned message meId meUsername \<longleftrightarrow>
     (\<exists>es e u. entities message = Some es \<and> e \<in> set es \<and> ent_userId e = Some u \<and>
        sameId u meId) \<or>
     (meUsername \<noteq> [] \<and> mentionPatternTest meUsername (msg_text message))"
proof -
  have t: "mentionPatternTest u [] = False" for u by simp
  show ?thesis
    by (cases "msg_text message = []")
       (auto simp: isAccountMentioned_def entityMentions_def list_ex_iff split: option.splits)
qed

lemma dropWhile_all_iff: "(\<forall>x\<in>set (dropWhile P xs). P x) \<longleftrightarrow> (\<forall>x\<in>set xs. P x)"
proof
  assume a: "\<forall>x\<in>set (dropWhile P xs). P x"
  have "dropWhile P xs = []"
  proof (rule ccontr)
    assume n: "dropWhile P xs \<noteq> []"
    then have "\<not> P (hd (dropWhile P xs))" by (rule hd_dropWhile)
    moreover from n have "hd (dropWhile P xs) \<in> set (dropWhile P xs)" by simp
    ultimately show False using a by blast
  qed
  then show "\<forall>x\<in>set xs. P x" by (simp add: dropWhile_eq_Nil_conv)
next
  assume "\<forall>x\<in>set xs. P x"
  then show "\<forall>x\<in>set (dropWhile P xs). P x" by (auto dest: set_dropWhileD)
qed

lemma trim_Nil_iff: "trim s = [] \<longleftrightarrow> (\<forall>c\<in>set s. isWhiteSpace c)"
  by (simp add: trim_def dropWhile_eq_Nil_conv dropWhile_all_iff)

lemma sameUser_PeerUser:
  "peer_className p = ''PeerUser'' \<Longrightarrow> peer_userId p = Some u \<Longrightarrow>
     sameUser p meId = sameId u meId"
  by (simp add: sameUser_def extractUserId_def)

lemma sameId_number_bigint:
  "\<bar>n\<bar> \<le> 2 ^ 53 \<Longrightarrow> u \<in> {Num n, BigInt n} \<Longrightarrow> meId \<in> {Num n, BigInt n} \<Longrightarrow> sameId u meId"
  by (auto simp: sameId_def roundToDouble_def)

lemma sameId_objects:
  "sameId (BigInteger r v) (BigInteger r' v') = (r = r')"
  "sameId (BigInteger r v) (Num n) = False" "sameId (Num n) (BigInteger r v) = False"
  "sameId (BigInteger r v) (BigInt n) = False" "sameId (BigInt n) (BigInteger r v) = False"
  by (simp_all add: sameId_def)

lemma dispatch_not_dm_repliedChats:
  assumes "\<not> isDM (adm_chat a)"
  shows "dispatch client accountId a now (st\<lparr>repliedChats := rc\<rparr>) =
           ((fst (dispatch client accountId a now st))\<lparr>repliedChats := rc\<rparr>,
            snd (dispatch client accountId a now st))"
  using assms
  by (simp add: dispatch_def Let_def markMessageProcessing_def split: outcome.splits option.splits)

lemma dispatch_not_dm_frame:
  assumes "\<not> isDM (adm_chat a)"
  shows "repliedChats (fst (dispatch client accountId a now st)) = repliedChats st"
  using assms
  by (simp add: dispatch_def Let_def markMessageProcessing_def split: outcome.splits option.splits)

lemma complete_group_repliedChats:
  "pend_surface p = GroupMessage \<Longrightarrow>
     repliedChats (complete client accountId p now st) = repliedChats st"
  by (simp add: complete_def clearMessageProcessing_def split: outcome.splits)

lemma dispatch_not_dm_surface:
  assumes "\<not> isDM (adm_chat a)" and "dispatch client accountId a now st = (st1, Inr p)"
  shows "pend_surface p = GroupMessage"
  using assms
  by (auto simp: dispatch_def Let_def split: outcome.splits option.splits if_splits)

text \<open>
  A handler run that nothing interrupts is the schedule that runs the three stretches of
  one task in a row.
\<close>

lemma handle_as_schedule:
  "runSchedule client accountId [Run 0 t, Run 0 t1, Run 0 t2] ([Arrived event], st, []) =
     ([Finished], handleIncomingMessage client event accountId t1 t2 st)"
  by (simp add: runSchedule_def handleIncomingMessage_def split: sum.splits prod.splits)

text \<open>The scenario: the first direct message in chat 555 is answered, at time 0.\<close>

lemma demo_first_reply:
  "handleIncomingMessage (demoClient True) (Some (demoMessage demoUser 1 ''hi'')) 123 0 0 emptyHandler =
     (\<lparr>repliedChats = [''123_555'' \<mapsto> 0], processingMessages = {},
       cleanupTimers = [(30000, ''123_555_1'')]\<rparr>, [demoDmReply])"
  by (simp add: run_defs demo_defs str_defs cls_defs st_defs)

lemma demo_channel_admit:
  "admit (demoClient True) (Some (demoMessage demoChannel 7 ''hello @Alice!'')) 123 emptyHandler =
     Inr \<lparr>adm_message = demoMessage demoChannel 7 ''hello @Alice!'', adm_me = demoMe,
          adm_chat = demoChannel, adm_chatId = ''-1001'', adm_messageId = ''7''\<rparr>"
  by (simp add: admit_def demo_defs cls_defs str_defs st_defs)

lemma demo_channel_facts:
  "getMe (demoClient ok) = Returns demoMe"
  "getChat (demoMessage chat n txt) = Returns (Some chat)"
  "isGroup demoChannel" "\<not> isDM demoChannel"
  "getAccountSettings (demoClient ok) 123 = Returns (Some demoSettings)"
  "autoReplyGroupsEnabled demoSettings" "autoReplyGroupsMessage demoSettings = codeUnits ''Busy''"
  "autoReplyDmEnabled demoSettings" "autoReplyDmMessage demoSettings = codeUnits ''Away right now''"
  by (simp_all add: demo_defs isGroup_def isDM_def)

lemma demo_mentions:
  "isAccountMentioned (demoMessage chat n ''hello @Alice!'') (me_id demoMe) (me_username demoMe)"
  "\<not> isAccountMentioned (demoMessage chat n ''hello all'') (me_id demoMe) (me_username demoMe)"
  "\<not> isAccountMentioned (demoMessage chat n ''mail bob@alice2'') (me_id demoMe) (me_username demoMe)"
  "\<not> isReplyToAccount (demoMessage chat n txt) client"
  by (simp_all add: demo_defs cls_defs)

section \<open>Markers and their cleanup timers\<close>

lemma covered_empty: "markersCovered T emptyHandler"
  by (simp add: markersCovered_def emptyHandler_def)

lemma covered_repliedChats [simp]:
  "markersCovered T (st\<lparr>repliedChats := rc\<rparr>) = markersCovered T st"
  by (simp add: markersCovered_def)

lemma covered_lookup:
  "markersCovered T st \<Longrightarrow> markersCovered T (snd (hasRepliedToChatRecently now accountId chatId st))"
  by (simp add: hasRepliedToChatRecently_def Let_def split: option.splits)

lemma covered_mark:
  "markersCovered T st \<Longrightarrow> now \<le> T \<Longrightarrow>
     markersCovered T (markMessageProcessing now accountId chatId messageId st)"
  by (auto simp: markersCovered_def markMessageProcessing_def Let_def)

lemma covered_clear:
  "markersCovered T st \<Longrightarrow> markersCovered T (clearMessageProcessing accountId chatId messageId st)"
  by (auto simp: markersCovered_def clearMessageProcessing_def)

lemma covered_markReplied:
  "markersCovered T st \<Longrightarrow> markersCovered T (markChatAsReplied now accountId chatId st)"
  by (simp add: markChatAsReplied_def)

lemma covered_fire:
  assumes "markersCovered T st"
  shows "markersCovered T (fireTimers now st)"
  unfolding markersCovered_def
proof
  fix k
  assume k: "k \<in> processingMessages (fireTimers now st)"
  then have kin: "k \<in> processingMessages st"
    and kfired: "k \<notin> snd ` set (filter (\<lambda>(due, k). due \<le> now) (cleanupTimers st))"
    by (simp_all add: fireTimers_def)
  from assms kin obtain due where d: "(due, k) \<in> set (cleanupTimers st)" "due \<le> T + 30000"
    by (auto simp: markersCovered_def)
  have "\<not> due \<le> now"
  proof
    assume "due \<le> now"
    with d have "(due, k) \<in> set (filter (\<lambda>(due, k). due \<le> now) (cleanupTimers st))" by simp
    then have "k \<in> snd ` set (filter (\<lambda>(due, k). due \<le> now) (cleanupTimers st))" by force
    with kfired show False by simp
  qed
  with d have "(due, k) \<in> set (cleanupTimers (fireTimers now st))"
    by (simp add: fireTimers_def)
  with d show "\<exists>due. (due, k) \<in> set (cleanupTimers (fireTimers now st)) \<and> due \<le> T + 30000"
    by blast
qed

lemma covered_dispatch:
  assumes "markersCovered T st" and "now \<le> T"
  shows "markersCovered T (fst (dispatch client accountId a now st))"
proof -
  note l = covered_lookup[OF assms(1), of now accountId "adm_chatId a"]
  show ?thesis
    using assms l
    by (cases "hasRepliedToChatRecently now accountId (adm_chatId a) st")
       (auto simp: dispatch_def Let_def covered_mark split: outcome.splits option.splits bool.splits)
qed

lemma covered_complete:
  "markersCovered T st \<Longrightarrow> markersCovered T (complete client accountId p now st)"
  by (auto simp: complete_def Let_def covered_clear covered_markReplied
        split: outcome.splits surface.splits)

lemma covered_taskStep:
  assumes "markersCovered T st" and "now \<le> T"
  shows "markersCovered T (fst (snd (taskStep client accountId now task st)))"
proof (cases task)
  case (Arrived ev)
  with assms show ?thesis by (simp split: sum.splits)
next
  case (Admitted a)
  from covered_dispatch[OF assms, of client accountId a] Admitted show ?thesis
    by (cases "dispatch client accountId a now st") (auto split: sum.splits)
next
  case (Sending p)
  with assms show ?thesis by (simp add: covered_complete)
next
  case Finished
  with assms show ?thesis by simp
qed

lemma covered_schedStep:
  assumes "markersCovered T (fst (snd sys))" and "schedTime e \<le> T"
  shows "markersCovered T (fst (snd (schedStep client accountId e sys)))"
proof (cases sys)
  case (fields tasks st sent)
  show ?thesis
  proof (cases e)
    case (Run i now)
    from covered_taskStep[of T st now client accountId "tasks ! i"] assms fields Run
    show ?thesis
      by (cases "taskStep client accountId now (tasks ! i) st") auto
  next
    case (Timers now)
    with assms fields show ?thesis by (simp add: covered_fire)
  qed
qed

lemma covered_run:
  "markersCovered T (fst (snd sys)) \<Longrightarrow> \<forall>e\<in>set schedule. schedTime e \<le> T \<Longrightarrow>
     markersCovered T (fst (snd (runSchedule client accountId schedule sys)))"
  unfolding runSchedule_def
proof (induction schedule arbitrary: sys)
  case Nil
  then show ?case by simp
next
  case (Cons e es)
  from Cons.prems have "markersCovered T (fst (snd (schedStep client accountId e sys)))"
    by (simp add: covered_schedStep)
  with Cons show ?case by simp
qed

lemma covered_fire_all:
  assumes "markersCovered T st" and "T + 30000 \<le> t'"
  shows "processingMessages (fireTimers t' st) = {}"
proof -
  have "k \<in> snd ` set (filter (\<lambda>(due, k). due \<le> t') (cleanupTimers st))"
    if "k \<in> processingMessages st" for k
  proof -
    from assms(1) that obtain due where "(due, k) \<in> set (cleanupTimers st)" "due \<le> T + 30000"
      by (auto simp: markersCovered_def)
    with assms(2) have "(due, k) \<in> set (filter (\<lambda>(due, k). due \<le> t') (cleanupTimers st))"
      by simp
    then show ?thesis by force
  qed
  then show ?thesis by (auto simp: fireTimers_def)
qed

lemma complete_releases:
  "getMessageKey accountId (pend_chatId p) (pend_messageId p) \<notin>
     processingMessages (complete client accountId p now st)"
  by (simp add: complete_def Let_def clearMessageProcessing_def)

lemma complete_processing:
  "processingMessages (complete client accountId p now st) =
     processingMessages st - {getMessageKey accountId (pend_chatId p) (pend_messageId p)}"
  by (simp add: complete_def Let_def clearMessageProcessing_def markChatAsReplied_def
        split: outcome.splits surface.splits)

lemma dispatch_processing:
  "dispatch client accountId a now st = (st1, r) \<Longrightarrow>
     (case r of
        Inl _ \<Rightarrow> processingMessages st1 = processingMessages st
      | Inr p \<Rightarrow> pend_chatId p = adm_chatId a \<and> pend_messageId p = adm_messageId a \<and>
                 processingMessages st1 =
                   insert (getMessageKey accountId (adm_chatId a) (adm_messageId a)) (processingMessages st))"
  by (cases "hasRepliedToChatRecently now accountId (adm_chatId a) st")
     (auto simp: dispatch_def Let_def markMessageProcessing_def hasRepliedToChatRecently_def
        split: outcome.splits option.splits bool.splits if_splits)

lemma handle_processing:
  "processingMessages (fst (handleIncomingMessage client event accountId t1 t2 st)) =
     processingMessages st"
proof (cases "admit client event accountId st")
  case (Inl r)
  then show ?thesis by (simp add: handleIncomingMessage_def)
next
  case (Inr a)
  note adm = this
  obtain st1 r where d: "dispatch client accountId a t1 st = (st1, r)"
    by (cases "dispatch client accountId a t1 st") auto
  show ?thesis
  proof (cases r)
    case (Inl x)
    with dispatch_processing[OF d] adm d show ?thesis
      by (simp add: handleIncomingMessage_def)
  next
    case (Inr p)
    with dispatch_processing[OF d] adm d admit_not_processing[OF adm] show ?thesis
      by (simp add: handleIncomingMessage_def complete_processing)
  qed
qed

lemma mark_then_fire:
  "getMessageKey accountId chatId messageId \<notin>
     processingMessages (fireTimers (now + 30000) (markMessageProcessing now accountId chatId messageId st))"
  by (force simp: fireTimers_def markMessageProcessing_def Let_def)

lemma complete_failed_repliedChats:
  "sendMessage client (pend_out p) = Throws \<Longrightarrow>
     repliedChats (complete client accountId p now st) = repliedChats st"
  by (simp add: complete_def clearMessageProcessing_def)

lemma lookup_clear_entry:
  "fst (hasRepliedToChatRecently now accountId chatId st) = False \<Longrightarrow>
     repliedChats (snd (hasRepliedToChatRecently now accountId chatId st)) (getChatKey accountId chatId) = None"
  by (auto simp: hasRepliedToChatRecently_def Let_def split: option.splits if_splits)

lemma demo_failed_reply:
  "handleIncomingMessage (demoClient False) (Some (demoMessage demoUser 1 ''hi'')) 123 0 0 emptyHandler =
     (\<lparr>repliedChats = Map.empty, processingMessages = {},
       cleanupTimers = [(30000, ''123_555_1'')]\<rparr>, [demoDmReply])"
  by (simp add: run_defs demo_defs str_defs cls_defs st_defs)

section \<open>The cooldown entry under interleaving\<close>

text \<open>
  A cooldown entry that is not older than the window survives every stretch of every
  handler run and every timer: a lookup of its chat leaves it, a lookup of another chat
  touches another key, and a completed send of its chat replaces it by the later time.
\<close>

lemma dispatch_entry:
  assumes "repliedChats st key = Some t'" and "now \<le> t' + 1800000"
  shows "repliedChats (fst (dispatch client accountId a now st)) key = Some t'"
  using assms
  by (auto simp: dispatch_def hasRepliedToChatRecently_def markMessageProcessing_def Let_def
        split: outcome.splits option.splits)

lemma complete_entry:
  assumes "repliedChats st key = Some t'"
  shows "repliedChats (complete client accountId p now st) key = Some t' \<or>
         repliedChats (complete client accountId p now st) key = Some now"
  using assms
  by (auto simp: complete_def markChatAsReplied_def clearMessageProcessing_def
        split: outcome.splits surface.splits)

lemma taskStep_entry:
  assumes "repliedChats st key = Some t'" and "now \<le> t' + 1800000"
  shows "repliedChats (fst (snd (taskStep client accountId now tk st))) key = Some t' \<or>
         repliedChats (fst (snd (taskStep client accountId now tk st))) key = Some now"
proof (cases tk)
  case (Arrived event)
  with assms show ?thesis by (simp split: sum.splits)
next
  case (Admitted a)
  from dispatch_entry[OF assms, of client accountId a] Admitted show ?thesis
    by (cases "dispatch client accountId a now st") (simp split: sum.splits)
next
  case (Sending p)
  from complete_entry[OF assms(1), of client accountId p now] Sending show ?thesis by simp
next
  case Finished
  with assms show ?thesis by simp
qed

lemma schedStep_entry:
  assumes "repliedChats st key = Some t'" and "schedTime e \<le> t' + 1800000"
  shows "repliedChats (fst (snd (schedStep client accountId e (tasks, st, sent)))) key = Some t' \<or>
         repliedChats (fst (snd (schedStep client accountId e (tasks, st, sent)))) key =
           Some (schedTime e)"
proof (cases e)
  case (Run i now)
  with taskStep_entry[OF assms(1), of now client accountId "tasks ! i"] assms
  show ?thesis by (simp add: split_beta)
next
  case (Timers now)
  with assms show ?thesis by (simp add: fireTimers_def)
qed

lemma run_entry:
  assumes "\<forall>e\<in>set sch. t0 \<le> schedTime e \<and> schedTime e \<le> t0 + 1800000"
    and "\<exists>t'. repliedChats st key = Some t' \<and> t0 \<le> t'"
  shows "\<exists>t'. repliedChats (fst (snd (runSchedule client accountId sch (tasks, st, sent)))) key =
           Some t' \<and> t0 \<le> t'"
  using assms
proof (induction sch arbitrary: tasks st sent)
  case Nil
  then show ?case by (simp add: runSchedule_def)
next
  case (Cons e sch)
  from Cons.prems(2) obtain t' where t': "repliedChats st key = Some t'" "t0 \<le> t'" by blast
  from Cons.prems(1) have e: "t0 \<le> schedTime e" "schedTime e \<le> t0 + 1800000"
    and rest: "\<forall>e\<in>set sch. t0 \<le> schedTime e \<and> schedTime e \<le> t0 + 1800000" by simp_all
  obtain tasks1 st1 sent1 where s1: "schedStep client accountId e (tasks, st, sent) = (tasks1, st1, sent1)"
    by (cases "schedStep client accountId e (tasks, st, sent)") auto
  from e t' have "schedTime e \<le> t' + 1800000" by simp
  from schedStep_entry[OF t'(1) this, of client accountId tasks sent] s1 t'(2) e(1)
  have "\<exists>t'. repliedChats st1 key = Some t' \<and> t0 \<le> t'" by auto
  from Cons.IH[OF rest this, of tasks1 sent1] s1 show ?case
    by (simp add: runSchedule_def)
qed


section \<open>The service loops\<close>

lemma roundToDouble_small: "0 \<le> a \<Longrightarrow> a \<le> 2 ^ 53 \<Longrightarrow> roundToDouble a = a"
  by (simp add: roundToDouble_def)





lemma interval_eq:
  "getRandomOfflineInterval (m, j) = roundToDouble (int m * 4001) div 2 ^ j + 8000"
  by (simp add: getRandomOfflineInterval_def OFFLINE_INTERVAL_MAX_def OFFLINE_INTERVAL_MIN_def)















lemma interval_samples:
  "getRandomOfflineInterval (0, 2) = 8000"
  "getRandomOfflineInterval (2, 3) = 9000"
  "getRandomOfflineInterval (2, 2) = 10000"
  by (simp_all add: interval_eq roundToDouble_small)











lemma demo_connect:
  "connectAccount (demoSvcEnv True) accountId reg =
     AList.update accountId
       \<lparr>client_connected = True, acc_userId = 42, lastHealthCheck = 0, lastActivity = 0\<rparr> reg"
  by (simp add: connectAccount_def demoSvcEnv_def hasAutoReply_def clientFor_def
        registerHandler_def demoSettings_def trim_def isWhiteSpace_def codeUnits_def Let_def)

lemma demo_start:
  "start (demoSvcEnv True) (Returns [1, 2]) 0 (0, 2) newService =
     (\<lparr>connectedAccounts =
         [(1, \<lparr>client_connected = True, acc_userId = 42, lastHealthCheck = 0, lastActivity = 0\<rparr>),
          (2, \<lparr>client_connected = True, acc_userId = 42, lastHealthCheck = 0, lastActivity = 0\<rparr>)],
       offlineInterval = Some 8000, healthCheckInterval = Some 120000\<rparr>,
      [ConnectAccount 1, ConnectAccount 2])"
  by (simp add: start_def demo_connect newService_def startHealthCheckLoop_def
        startOfflineStatusLoop_def scheduleNext_def interval_samples
        HEALTH_CHECK_INTERVAL_def Let_def)

section \<open>Direct messages: the cooldown window\<close>

text \<open>
  C1. A direct message that has passed the exclusions and the in-flight check (\<open>a\<close>), for
  an account with direct-message auto-reply enabled and a text configured:
  \<^item> when its reply is sent and the send succeeds, settling at \<open>t0\<close>, the cooldown entry of
    (account, chat) holds \<open>t0\<close> afterwards, whatever ran while the send was in flight;
  \<^item> with an entry recorded at \<open>t0\<close> in the store, its lookup at \<open>t1 \<le> t0 + 30 min\<close> finds
    the chat on cooldown: nothing is sent and the state is unchanged;
  \<^item> the same holds after any interleaving of other handler runs and timers between \<open>t0\<close>
    and \<open>t0 + 30 min\<close>: the entry they leave is that one or a later one;
  \<^item> with an entry recorded at \<open>t0\<close> in the store, its lookup at \<open>t1 > t0 + 30 min\<close> treats
    the entry as absent and deletes it, and the reply is sent again;
  \<^item> for a handler run that nothing interrupts, the same three facts about
    \<open>handleIncomingMessage\<close>;
  \<^item> with no entry in the store, as when an earlier reply of the chat is still being sent,
    the reply is sent.
\<close>

theorem dm_cooldown_window:
  assumes dm: "isDM (adm_chat a)"
    and cfg: "getAccountSettings client accountId = Returns (Some s)"
      "autoReplyDmEnabled s" "autoReplyDmMessage s \<noteq> []"
  shows "(dispatch client accountId a t st = (st1, Inr p) \<and>
          sendMessage client (pend_out p) = Returns () \<longrightarrow>
            repliedChats (complete client accountId p t0 st2)
              (getChatKey accountId (adm_chatId a)) = Some t0) \<and>
         (repliedChats st (getChatKey accountId (adm_chatId a)) = Some t0 \<and>
          t1 \<le> t0 + 30 * 60 * 1000 \<longrightarrow>
            taskStep client accountId t1 (Admitted a) st = (Finished, st, [])) \<and>
         (repliedChats st (getChatKey accountId (adm_chatId a)) = Some t0 \<and>
          (\<forall>e\<in>set sch. t0 \<le> schedTime e \<and> schedTime e \<le> t0 + 30 * 60 * 1000) \<and>
          t1 \<le> t0 + 30 * 60 * 1000 \<longrightarrow>
            taskStep client accountId t1 (Admitted a)
              (fst (snd (runSchedule client accountId sch (tasks, st, sent)))) =
              (Finished, fst (snd (runSchedule client accountId sch (tasks, st, sent))), [])) \<and>
         (repliedChats st (getChatKey accountId (adm_chatId a)) = Some t0 \<and>
          t0 + 30 * 60 * 1000 < t1 \<longrightarrow>
            hasRepliedToChatRecently t1 accountId (adm_chatId a) st =
              (False, st\<lparr>repliedChats :=
                           (repliedChats st)(getChatKey accountId (adm_chatId a) := None)\<rparr>) \<and>
            taskStep client accountId t1 (Admitted a) st =
              (Sending \<lparr>pend_surface = DirectMessage, pend_chatId = adm_chatId a,
                        pend_messageId = adm_messageId a,
                        pend_out = \<lparr>out_chat = adm_chat a, out_message = autoReplyDmMessage s,
                                    out_replyTo = None\<rparr>\<rparr>,
               markMessageProcessing t1 accountId (adm_chatId a) (adm_messageId a)
                 (st\<lparr>repliedChats :=
                       (repliedChats st)(getChatKey accountId (adm_chatId a) := None)\<rparr>),
               [\<lparr>out_chat = adm_chat a, out_message = autoReplyDmMessage s,
                 out_replyTo = None\<rparr>])) \<and>
         (admit client event accountId st = Inr a \<longrightarrow>
            (sendMessage client \<lparr>out_chat = adm_chat a, out_message = autoReplyDmMessage s,
                                 out_replyTo = None\<rparr> = Returns () \<and>
             snd (handleIncomingMessage client event accountId t t0 st) \<noteq> [] \<longrightarrow>
               repliedChats (fst (handleIncomingMessage client event accountId t t0 st))
                 (getChatKey accountId (adm_chatId a)) = Some t0) \<and>
            (repliedChats st (getChatKey accountId (adm_chatId a)) = Some t0 \<and>
             t1 \<le> t0 + 30 * 60 * 1000 \<longrightarrow>
               handleIncomingMessage client event accountId t1 t2 st = (st, [])) \<and>
            (repliedChats st (getChatKey accountId (adm_chatId a)) = Some t0 \<and>
             t0 + 30 * 60 * 1000 < t1 \<longrightarrow>
               snd (handleIncomingMessage client event accountId t1 t2 st) =
                 [\<lparr>out_chat = adm_chat a, out_message = autoReplyDmMessage s,
                   out_replyTo = None\<rparr>])) \<and>
         (repliedChats st (getChatKey accountId (adm_chatId a)) = None \<longrightarrow>
            taskStep client accountId t1 (Admitted a) st =
              (Sending \<lparr>pend_surface = DirectMessage, pend_chatId = adm_chatId a,
                        pend_messageId = adm_messageId a,
                        pend_out = \<lparr>out_chat = adm_chat a, out_message = autoReplyDmMessage s,
                                    out_replyTo = None\<rparr>\<rparr>,
               markMessageProcessing t1 accountId (adm_chatId a) (adm_messageId a) st,
               [\<lparr>out_chat = adm_chat a, out_message = autoReplyDmMessage s,
                 out_replyTo = None\<rparr>]))"
proof (intro conjI impI)
  assume h: "dispatch client accountId a t st = (st1, Inr p) \<and>
             sendMessage client (pend_out p) = Returns ()"
  have "pend_surface p = DirectMessage \<and> pend_chatId p = adm_chatId a"
  proof (cases "fst (hasRepliedToChatRecently t accountId (adm_chatId a) st)")
    case True
    from dispatch_dm_blocked[OF dm cfg True] h show ?thesis by simp
  next
    case False
    from dispatch_dm_clear[OF dm cfg, of t st] False h show ?thesis by auto
  qed
  with h show "repliedChats (complete client accountId p t0 st2)
      (getChatKey accountId (adm_chatId a)) = Some t0"
    by (simp add: complete_def markChatAsReplied_def clearMessageProcessing_def)
next
  assume h: "repliedChats st (getChatKey accountId (adm_chatId a)) = Some t0 \<and>
             t1 \<le> t0 + 30 * 60 * 1000"
  then have "dispatch client accountId a t1 st = (st, Inl OnCooldown)"
    using dispatch_dm_cooldown[OF dm cfg, of st t0 t1] by simp
  then show "taskStep client accountId t1 (Admitted a) st = (Finished, st, [])" by simp
next
  assume h: "repliedChats st (getChatKey accountId (adm_chatId a)) = Some t0 \<and>
             (\<forall>e\<in>set sch. t0 \<le> schedTime e \<and> schedTime e \<le> t0 + 30 * 60 * 1000) \<and>
             t1 \<le> t0 + 30 * 60 * 1000"
  let ?st = "fst (snd (runSchedule client accountId sch (tasks, st, sent)))"
  from h have times: "\<forall>e\<in>set sch. t0 \<le> schedTime e \<and> schedTime e \<le> t0 + 1800000"
    and start: "\<exists>t'. repliedChats st (getChatKey accountId (adm_chatId a)) = Some t' \<and> t0 \<le> t'"
    by simp_all
  from run_entry[OF times start, of client accountId tasks sent]
  obtain t' where t': "repliedChats ?st (getChatKey accountId (adm_chatId a)) = Some t'" "t0 \<le> t'"
    by blast
  with h have "t1 \<le> t' + 1800000" by simp
  from dispatch_dm_cooldown[OF dm cfg t'(1) this]
  show "taskStep client accountId t1 (Admitted a) ?st = (Finished, ?st, [])" by simp
next
  assume h: "repliedChats st (getChatKey accountId (adm_chatId a)) = Some t0 \<and>
             t0 + 30 * 60 * 1000 < t1"
  then show e: "hasRepliedToChatRecently t1 accountId (adm_chatId a) st =
      (False, st\<lparr>repliedChats := (repliedChats st)(getChatKey accountId (adm_chatId a) := None)\<rparr>)"
    using lookup_expired[of st accountId "adm_chatId a" t0 t1] by simp
  from dispatch_dm_clear[OF dm cfg, of t1 st] e
  show "taskStep client accountId t1 (Admitted a) st =
              (Sending \<lparr>pend_surface = DirectMessage, pend_chatId = adm_chatId a,
                        pend_messageId = adm_messageId a,
                        pend_out = \<lparr>out_chat = adm_chat a, out_message = autoReplyDmMessage s,
                                    out_replyTo = None\<rparr>\<rparr>,
               markMessageProcessing t1 accountId (adm_chatId a) (adm_messageId a)
                 (st\<lparr>repliedChats :=
                       (repliedChats st)(getChatKey accountId (adm_chatId a) := None)\<rparr>),
               [\<lparr>out_chat = adm_chat a, out_message = autoReplyDmMessage s,
                 out_replyTo = None\<rparr>])"
    by simp
next
  assume adm: "admit client event accountId st = Inr a"
  assume h: "sendMessage client \<lparr>out_chat = adm_chat a, out_message = autoReplyDmMessage s,
                                 out_replyTo = None\<rparr> = Returns () \<and>
             snd (handleIncomingMessage client event accountId t t0 st) \<noteq> []"
  show "repliedChats (fst (handleIncomingMessage client event accountId t t0 st))
          (getChatKey accountId (adm_chatId a)) = Some t0"
  proof (cases "fst (hasRepliedToChatRecently t accountId (adm_chatId a) st)")
    case True
    from dispatch_dm_blocked[OF dm cfg True] h adm show ?thesis
      by (simp add: handleIncomingMessage_def)
  next
    case False
    from dispatch_dm_clear[OF dm cfg, of t st] False h adm show ?thesis
      by (simp add: handleIncomingMessage_def complete_def markChatAsReplied_def
            clearMessageProcessing_def)
  qed
next
  assume adm: "admit client event accountId st = Inr a"
  assume h: "repliedChats st (getChatKey accountId (adm_chatId a)) = Some t0 \<and>
             t1 \<le> t0 + 30 * 60 * 1000"
  then have "dispatch client accountId a t1 st = (st, Inl OnCooldown)"
    using dispatch_dm_cooldown[OF dm cfg, of st t0 t1] by simp
  with adm show "handleIncomingMessage client event accountId t1 t2 st = (st, [])"
    by (simp add: handleIncomingMessage_def)
next
  assume adm: "admit client event accountId st = Inr a"
  assume h: "repliedChats st (getChatKey accountId (adm_chatId a)) = Some t0 \<and>
             t0 + 30 * 60 * 1000 < t1"
  then have e: "hasRepliedToChatRecently t1 accountId (adm_chatId a) st =
      (False, st\<lparr>repliedChats := (repliedChats st)(getChatKey accountId (adm_chatId a) := None)\<rparr>)"
    using lookup_expired[of st accountId "adm_chatId a" t0 t1] by simp
  from dispatch_dm_clear[OF dm cfg, of t1 st] e adm
  show "snd (handleIncomingMessage client event accountId t1 t2 st) =
          [\<lparr>out_chat = adm_chat a, out_message = autoReplyDmMessage s, out_replyTo = None\<rparr>]"
    by (simp add: handleIncomingMessage_def)
next
  assume h: "repliedChats st (getChatKey accountId (adm_chatId a)) = None"
  from dispatch_dm_clear[OF dm cfg, of t1 st] lookup_absent[OF h, of t1]
  show "taskStep client accountId t1 (Admitted a) st =
              (Sending \<lparr>pend_surface = DirectMessage, pend_chatId = adm_chatId a,
                        pend_messageId = adm_messageId a,
                        pend_out = \<lparr>out_chat = adm_chat a, out_message = autoReplyDmMessage s,
                                    out_replyTo = None\<rparr>\<rparr>,
               markMessageProcessing t1 accountId (adm_chatId a) (adm_messageId a) st,
               [\<lparr>out_chat = adm_chat a, out_message = autoReplyDmMessage s,
                 out_replyTo = None\<rparr>])"
    by simp
qed

text \<open>
  The scenario: the first message is answered at time 0; one that arrives 15 minutes later
  is not, also when another direct message, a group mention and a timer have run in
  between; one that arrives 31 minutes later is. A send that settles at 10 records 10. A
  second message looked up at 5, while the first reply is in flight, is answered.
\<close>

theorem dm_cooldown_window_witness:
  "repliedChats (fst (handleIncomingMessage (demoClient True) (Some (demoMessage demoUser 1 ''hi'')) 123 0 0 emptyHandler))
     ''123_555'' = Some 0 \<and>
   handleIncomingMessage (demoClient True) (Some (demoMessage demoUser 2 ''hi again'')) 123 900000 900500
     (fst (handleIncomingMessage (demoClient True) (Some (demoMessage demoUser 1 ''hi'')) 123 0 0 emptyHandler)) =
     (fst (handleIncomingMessage (demoClient True) (Some (demoMessage demoUser 1 ''hi'')) 123 0 0 emptyHandler), []) \<and>
   snd (handleIncomingMessage (demoClient True) (Some (demoMessage demoUser 3 ''hello'')) 123 1860000 1860500
     (fst (handleIncomingMessage (demoClient True) (Some (demoMessage demoUser 1 ''hi'')) 123 0 0 emptyHandler))) =
     [demoDmReply] \<and>
   repliedChats
     (complete (demoClient True) 123
        \<lparr>pend_surface = DirectMessage, pend_chatId = ''555'', pend_messageId = ''1'',
         pend_out = demoDmReply\<rparr> 10
        \<lparr>repliedChats = Map.empty, processingMessages = {''123_555_1'', ''123_555_2''},
         cleanupTimers = [(30000, ''123_555_1''), (30005, ''123_555_2'')]\<rparr>)
     ''123_555'' = Some 10 \<and>
   taskStep (demoClient True) 123 900000
     (Admitted \<lparr>adm_message = demoMessage demoUser 2 ''hi again'', adm_me = demoMe,
                adm_chat = demoUser, adm_chatId = ''555'', adm_messageId = ''2''\<rparr>)
     \<lparr>repliedChats = [''123_555'' \<mapsto> 0], processingMessages = {},
      cleanupTimers = [(30000, ''123_555_1'')]\<rparr> =
     (Finished,
      \<lparr>repliedChats = [''123_555'' \<mapsto> 0], processingMessages = {},
       cleanupTimers = [(30000, ''123_555_1'')]\<rparr>, []) \<and>
   runSchedule (demoClient True) 123
     [Run 0 100, Run 1 150, Run 0 200, Run 1 250, Run 1 300, Timers 30000]
     ([Arrived (Some (demoMessage demoUser 2 ''hi again'')),
       Arrived (Some (demoMessage demoChannel 7 ''hello @Alice!''))],
      \<lparr>repliedChats = [''123_555'' \<mapsto> 0], processingMessages = {},
       cleanupTimers = [(30000, ''123_555_1'')]\<rparr>, [demoDmReply]) =
     ([Finished, Finished],
      \<lparr>repliedChats = [''123_555'' \<mapsto> 0], processingMessages = {},
       cleanupTimers = [(30250, ''123_-1001_7'')]\<rparr>,
      [demoDmReply, \<lparr>out_chat = demoChannel, out_message = codeUnits ''Busy'', out_replyTo = None\<rparr>]) \<and>
   taskStep (demoClient True) 123 900000
     (Admitted \<lparr>adm_message = demoMessage demoUser 3 ''hello'', adm_me = demoMe,
                adm_chat = demoUser, adm_chatId = ''555'', adm_messageId = ''3''\<rparr>)
     \<lparr>repliedChats = [''123_555'' \<mapsto> 0], processingMessages = {},
      cleanupTimers = [(30250, ''123_-1001_7'')]\<rparr> =
     (Finished,
      \<lparr>repliedChats = [''123_555'' \<mapsto> 0], processingMessages = {},
       cleanupTimers = [(30250, ''123_-1001_7'')]\<rparr>, []) \<and>
   taskStep (demoClient True) 123 1860000
     (Admitted \<lparr>adm_message = demoMessage demoUser 3 ''hello'', adm_me = demoMe,
                adm_chat = demoUser, adm_chatId = ''555'', adm_messageId = ''3''\<rparr>)
     \<lparr>repliedChats = [''123_555'' \<mapsto> 0], processingMessages = {},
      cleanupTimers = [(30000, ''123_555_1'')]\<rparr> =
     (Sending \<lparr>pend_surface = DirectMessage, pend_chatId = ''555'', pend_messageId = ''3'',
               pend_out = demoDmReply\<rparr>,
      \<lparr>repliedChats = Map.empty, processingMessages = {''123_555_3''},
       cleanupTimers = [(30000, ''123_555_1''), (1890000, ''123_555_3'')]\<rparr>,
      [demoDmReply]) \<and>
   taskStep (demoClient True) 123 5
     (Admitted \<lparr>adm_message = demoMessage demoUser 2 ''hi again'', adm_me = demoMe,
                adm_chat = demoUser, adm_chatId = ''555'', adm_messageId = ''2''\<rparr>)
     \<lparr>repliedChats = Map.empty, processingMessages = {''123_555_1''},
      cleanupTimers = [(30000, ''123_555_1'')]\<rparr> =
     (Sending \<lparr>pend_surface = DirectMessage, pend_chatId = ''555'', pend_messageId = ''2'',
               pend_out = demoDmReply\<rparr>,
      \<lparr>repliedChats = Map.empty, processingMessages = {''123_555_1'', ''123_555_2''},
       cleanupTimers = [(30000, ''123_555_1''), (30005, ''123_555_2'')]\<rparr>,
      [demoDmReply])"
proof -
  let ?c = "demoClient True"
  let ?h1 = "fst (handleIncomingMessage ?c (Some (demoMessage demoUser 1 ''hi'')) 123 0 0 emptyHandler)"
  let ?st1 = "\<lparr>repliedChats = [''123_555'' \<mapsto> 0], processingMessages = {},
       cleanupTimers = [(30000, ''123_555_1'')]\<rparr>"
  let ?a = "\<lambda>n body i. \<lparr>adm_message = demoMessage demoUser n body, adm_me = demoMe, adm_chat = demoUser,
           adm_chatId = ''555'', adm_messageId = i\<rparr>"
  have st1: "?h1 = ?st1"
    by (simp add: demo_first_reply)
  have cfg: "getAccountSettings ?c 123 = Returns (Some demoSettings)"
    "autoReplyDmEnabled demoSettings" "autoReplyDmMessage demoSettings \<noteq> []"
    by (simp_all add: demo_defs)
  have a1: "admit ?c (Some (demoMessage demoUser 1 ''hi'')) 123 emptyHandler = Inr (?a 1 ''hi'' ''1'')"
    by (simp add: admit_def demo_defs cls_defs str_defs st_defs)
  have a2: "admit ?c (Some (demoMessage demoUser 2 ''hi again'')) 123 ?h1 = Inr (?a 2 ''hi again'' ''2'')"
    unfolding st1 by (simp add: admit_def demo_defs cls_defs str_defs st_defs)
  have a3: "admit ?c (Some (demoMessage demoUser 3 ''hello'')) 123 ?h1 = Inr (?a 3 ''hello'' ''3'')"
    unfolding st1 by (simp add: admit_def demo_defs cls_defs str_defs st_defs)
  have dm: "isDM (adm_chat (?a n body i))" for n body i
    by (simp add: isDM_def demoUser_def)
  have key: "getChatKey 123 ''555'' = ''123_555''"
    by (simp add: str_defs)
  have send: "sendMessage ?c x = Returns ()" for x
    by (simp add: demoClient_def)
  have msg: "autoReplyDmMessage demoSettings = codeUnits ''Away right now''"
    by (simp add: demoSettings_def)
  have reply: "\<lparr>out_chat = demoUser, out_message = codeUnits ''Away right now'', out_replyTo = None\<rparr> =
      demoDmReply"
    by (simp add: demoDmReply_def)
  have e1: "repliedChats ?st1 ''123_555'' = Some 0" by simp
  note w1 = dm_cooldown_window[OF dm[of 1 "''hi''" "''1''"] cfg,
      where event = "Some (demoMessage demoUser 1 ''hi'')" and st = emptyHandler and t = 0 and ?t0.0 = 0,
      THEN conjunct2, THEN conjunct2, THEN conjunct2, THEN conjunct2, THEN conjunct1, THEN mp, OF a1, THEN conjunct1]
  have r1: "repliedChats ?h1 ''123_555'' = Some 0"
    using w1 by (simp add: key send demo_first_reply)
  note w2 = dm_cooldown_window[OF dm[of 2 "''hi again''" "''2''"] cfg,
      where event = "Some (demoMessage demoUser 2 ''hi again'')" and st = ?h1
      and ?t0.0 = 0 and ?t1.0 = 900000 and ?t2.0 = 900500,
      THEN conjunct2, THEN conjunct2, THEN conjunct2, THEN conjunct2, THEN conjunct1, THEN mp, OF a2,
      THEN conjunct2, THEN conjunct1]
  have r2: "handleIncomingMessage ?c (Some (demoMessage demoUser 2 ''hi again'')) 123 900000 900500 ?h1 = (?h1, [])"
    using w2 r1 by (simp add: key)
  note w3 = dm_cooldown_window[OF dm[of 3 "''hello''" "''3''"] cfg,
      where event = "Some (demoMessage demoUser 3 ''hello'')" and st = ?h1
      and ?t0.0 = 0 and ?t1.0 = 1860000 and ?t2.0 = 1860500,
      THEN conjunct2, THEN conjunct2, THEN conjunct2, THEN conjunct2, THEN conjunct1, THEN mp, OF a3,
      THEN conjunct2, THEN conjunct2]
  have r3: "snd (handleIncomingMessage ?c (Some (demoMessage demoUser 3 ''hello'')) 123 1860000 1860500 ?h1) = [demoDmReply]"
    using w3 r1 by (simp add: key msg demoDmReply_def)
  let ?p1 = "\<lparr>pend_surface = DirectMessage, pend_chatId = ''555'', pend_messageId = ''1'',
         pend_out = demoDmReply\<rparr>"
  let ?stD = "\<lparr>repliedChats = Map.empty, processingMessages = {''123_555_1''},
         cleanupTimers = [(30000, ''123_555_1'')]\<rparr>"
  let ?st2 = "\<lparr>repliedChats = Map.empty, processingMessages = {''123_555_1'', ''123_555_2''},
         cleanupTimers = [(30000, ''123_555_1''), (30005, ''123_555_2'')]\<rparr>"
  have d1: "dispatch ?c 123 (?a 1 ''hi'' ''1'') 0 emptyHandler = (?stD, Inr ?p1) \<and>
      sendMessage ?c (pend_out ?p1) = Returns ()"
    by (simp add: dispatch_def demo_defs cls_defs str_defs st_defs Let_def)
  note w4 = dm_cooldown_window[OF dm[of 1 "''hi''" "''1''"] cfg,
      where st = emptyHandler and t = 0 and ?st1.0 = ?stD and p = ?p1 and ?t0.0 = 10 and ?st2.0 = ?st2,
      THEN conjunct1, THEN mp, OF d1]
  have r4: "repliedChats (complete ?c 123 ?p1 10 ?st2) ''123_555'' = Some 10"
    using w4 by (simp add: key)
  have h5: "repliedChats ?st1 (getChatKey 123 (adm_chatId (?a 2 ''hi again'' ''2''))) = Some 0 \<and>
      (900000 :: int) \<le> 0 + 30 * 60 * 1000"
    by (simp add: key)
  note w5 = dm_cooldown_window[OF dm[of 2 "''hi again''" "''2''"] cfg,
      where st = ?st1 and ?t0.0 = 0 and ?t1.0 = 900000,
      THEN conjunct2, THEN conjunct1, THEN mp, OF h5]
  let ?sch = "[Run 0 100, Run 1 150, Run 0 200, Run 1 250, Run 1 300, Timers 30000]"
  let ?tasks = "[Arrived (Some (demoMessage demoUser 2 ''hi again'')),
       Arrived (Some (demoMessage demoChannel 7 ''hello @Alice!''))]"
  let ?stX = "\<lparr>repliedChats = [''123_555'' \<mapsto> 0], processingMessages = {},
       cleanupTimers = [(30250, ''123_-1001_7'')]\<rparr>"
  have run: "runSchedule ?c 123 ?sch (?tasks, ?st1, [demoDmReply]) =
     ([Finished, Finished], ?stX,
      [demoDmReply, \<lparr>out_chat = demoChannel, out_message = codeUnits ''Busy'', out_replyTo = None\<rparr>])"
    by (simp add: runSchedule_def admit_def dispatch_def complete_def Let_def
          demo_defs str_defs cls_defs st_defs)
  have h6: "repliedChats ?st1 (getChatKey 123 (adm_chatId (?a 3 ''hello'' ''3''))) = Some 0 \<and>
      (\<forall>e\<in>set ?sch. 0 \<le> schedTime e \<and> schedTime e \<le> 0 + 30 * 60 * 1000) \<and>
      (900000 :: int) \<le> 0 + 30 * 60 * 1000"
    by (simp add: key)
  note w6 = dm_cooldown_window[OF dm[of 3 "''hello''" "''3''"] cfg,
      where st = ?st1 and ?t0.0 = 0 and ?t1.0 = 900000 and sch = ?sch and tasks = ?tasks
      and sent = "[demoDmReply]",
      THEN conjunct2, THEN conjunct2, THEN conjunct1, THEN mp, OF h6]
  have r6: "taskStep ?c 123 900000 (Admitted (?a 3 ''hello'' ''3'')) ?stX = (Finished, ?stX, [])"
    using w6 unfolding run by simp
  have h7: "repliedChats ?st1 (getChatKey 123 (adm_chatId (?a 3 ''hello'' ''3''))) = Some 0 \<and>
      (0 :: int) + 30 * 60 * 1000 < 1860000"
    by (simp add: key)
  note w7 = dm_cooldown_window[OF dm[of 3 "''hello''" "''3''"] cfg,
      where st = ?st1 and ?t0.0 = 0 and ?t1.0 = 1860000,
      THEN conjunct2, THEN conjunct2, THEN conjunct2, THEN conjunct1, THEN mp, OF h7, THEN conjunct2]
  have r7: "taskStep ?c 123 1860000 (Admitted (?a 3 ''hello'' ''3'')) ?st1 =
     (Sending \<lparr>pend_surface = DirectMessage, pend_chatId = ''555'', pend_messageId = ''3'',
               pend_out = demoDmReply\<rparr>,
      \<lparr>repliedChats = Map.empty, processingMessages = {''123_555_3''},
       cleanupTimers = [(30000, ''123_555_1''), (1890000, ''123_555_3'')]\<rparr>,
      [demoDmReply])"
    using w7 by (simp add: key msg reply markMessageProcessing_def str_defs Let_def del: taskStep.simps)
  have h8: "repliedChats ?stD (getChatKey 123 (adm_chatId (?a 2 ''hi again'' ''2''))) = None"
    by simp
  note w8 = dm_cooldown_window[OF dm[of 2 "''hi again''" "''2''"] cfg,
      where st = ?stD and ?t1.0 = 5,
      THEN conjunct2, THEN conjunct2, THEN conjunct2, THEN conjunct2, THEN conjunct2, THEN mp, OF h8]
  have r8: "taskStep ?c 123 5 (Admitted (?a 2 ''hi again'' ''2'')) ?stD =
     (Sending \<lparr>pend_surface = DirectMessage, pend_chatId = ''555'', pend_messageId = ''2'',
               pend_out = demoDmReply\<rparr>, ?st2, [demoDmReply])"
    using w8 by (simp add: key msg reply markMessageProcessing_def str_defs Let_def insert_commute
          del: taskStep.simps)
  from r1 r2 r3 r4 w5 run r6 r7 r8 show ?thesis by (intro conjI)
qed


text \<open>
  At exactly 30 minutes the entry is not yet older than the window: a message looked up at
  \<open>t0 + 30 min\<close> is still not answered. And a second message of the chat whose lookup runs
  while the first reply is still being sent finds no entry: the first reply is sent at 0 and
  its send settles at 10, the second message is looked up at 5, and both are answered.
\<close>

theorem dm_cooldown_boundary_counterexample:
  "snd (handleIncomingMessage (demoClient True) (Some (demoMessage demoUser 1 ''hi'')) 123 0 0 emptyHandler) =
     [demoDmReply] \<and>
   (0 :: int) + 30 * 60 * 1000 \<le> 1800000 \<and>
   snd (handleIncomingMessage (demoClient True) (Some (demoMessage demoUser 2 ''hi again'')) 123 1800000 1800000
     (fst (handleIncomingMessage (demoClient True) (Some (demoMessage demoUser 1 ''hi'')) 123 0 0 emptyHandler))) = [] \<and>
   snd (snd (runSchedule (demoClient True) 123
       [Run 0 0, Run 0 0, Run 1 5, Run 1 5, Run 0 10, Run 1 15]
       ([Arrived (Some (demoMessage demoUser 1 ''hi'')),
         Arrived (Some (demoMessage demoUser 2 ''hi again''))],
        emptyHandler, []))) = [demoDmReply, demoDmReply] \<and>
   (5 :: int) < 0 + 30 * 60 * 1000"
proof -
  have "snd (snd (runSchedule (demoClient True) 123
       [Run 0 0, Run 0 0, Run 1 5, Run 1 5, Run 0 10, Run 1 15]
       ([Arrived (Some (demoMessage demoUser 1 ''hi'')),
         Arrived (Some (demoMessage demoUser 2 ''hi again''))],
        emptyHandler, []))) = [demoDmReply, demoDmReply]"
    by (simp add: runSchedule_def admit_def dispatch_def complete_def Let_def
          demo_defs str_defs cls_defs st_defs)
  moreover have "snd (handleIncomingMessage (demoClient True) (Some (demoMessage demoUser 1 ''hi'')) 123 0 0 emptyHandler) =
     [demoDmReply] \<and>
   (0 :: int) + 30 * 60 * 1000 \<le> 1800000 \<and>
   snd (handleIncomingMessage (demoClient True) (Some (demoMessage demoUser 2 ''hi again'')) 123 1800000 1800000
     (fst (handleIncomingMessage (demoClient True) (Some (demoMessage demoUser 1 ''hi'')) 123 0 0 emptyHandler))) = []"
    by (simp add: demo_first_reply) (simp add: run_defs demo_defs str_defs cls_defs st_defs)
  ultimately show ?thesis by simp
qed

section \<open>The in-flight guard under interleaving\<close>

text \<open>
  C2. Two handler invocations for the same event (account 123, chat 555, message 1) that
  both run their \<open>isProcessingMessage\<close> check before either reaches
  \<open>markMessageProcessing\<close>: the \<open>await\<close> of \<open>getAccountSettings\<close> lies between the check
  and the set, so both pass the check, and two replies are sent.
\<close>

theorem duplicate_event_race:
  "snd (snd (runSchedule (demoClient True) 123
       [Run 0 0, Run 1 0, Run 0 1, Run 1 1, Run 0 2, Run 1 2]
       ([Arrived (Some (demoMessage demoUser 1 ''hi'')),
         Arrived (Some (demoMessage demoUser 1 ''hi''))],
        emptyHandler, []))) = [demoDmReply, demoDmReply]"
  by (simp add: runSchedule_def admit_def dispatch_def complete_def Let_def
        demo_defs str_defs cls_defs st_defs)

text \<open>
  When the second invocation runs its check only after the first has set the marker and
  before it has cleared it, the guard holds the duplicate back.
\<close>

lemma duplicate_event_after_acquire:
  "snd (snd (runSchedule (demoClient True) 123
       [Run 0 0, Run 0 1, Run 1 1, Run 1 1, Run 0 2, Run 1 2]
       ([Arrived (Some (demoMessage demoUser 1 ''hi'')),
         Arrived (Some (demoMessage demoUser 1 ''hi''))],
        emptyHandler, []))) = [demoDmReply]"
  by (simp add: runSchedule_def admit_def dispatch_def complete_def Let_def
        demo_defs str_defs cls_defs st_defs)

section \<open>Group messages: the trigger gate\<close>

text \<open>
  C3. In the supergroup, with group auto-reply enabled and a text configured, the account
  being user 777, \<open>@alice\<close>:
  \<^item> a message that replies to a message written by user 777, the two ids being objects of
    the client library (each its own object, both of value 777), is not recognised as a
    reply to the account: \<open>isReplyToAccount\<close> is false and nothing is sent;
  \<^item> the same message is answered when the two ids are a number and a native bigint;
  \<^item> a message with a mention entity for user 777 is not answered when the ids are objects,
    and is answered when they are a number and a native bigint;
  \<^item> a message with \<open>@Alice\<close> in its text is answered, and a message with no trigger is
    not.
\<close>

theorem group_trigger_object_ids:
  "idValue (BigInteger 2 777) = idValue (me_id demoMe) \<and>
   \<not> isReplyToAccount
       ((demoMessage demoChannel 9 ''thanks'')
          \<lparr>replyTo := True, getReplyMessage := Returns (Some (demoOwnMessage (demoPeer 777)))\<rparr>)
       (demoClient True) \<and>
   handleIncomingMessage (demoClient True)
     (Some ((demoMessage demoChannel 9 ''thanks'')
          \<lparr>replyTo := True, getReplyMessage := Returns (Some (demoOwnMessage (demoPeer 777)))\<rparr>))
     123 0 0 emptyHandler = (emptyHandler, []) \<and>
   snd (handleIncomingMessage demoNativeClient
     (Some ((demoMessage demoChannel 9 ''thanks'')
          \<lparr>replyTo := True, getReplyMessage := Returns (Some (demoOwnMessage (demoNativePeer 777)))\<rparr>))
     123 0 0 emptyHandler) = [demoGroupReply] \<and>
   handleIncomingMessage (demoClient True)
     (Some ((demoMessage demoChannel 10 ''ping'')
          \<lparr>entities := Some [\<lparr>ent_className = ''MessageEntityMentionName'',
                               ent_userId = Some (BigInteger 6 777)\<rparr>]\<rparr>))
     123 0 0 emptyHandler = (emptyHandler, []) \<and>
   snd (handleIncomingMessage demoNativeClient
     (Some ((demoMessage demoChannel 10 ''ping'')
          \<lparr>entities := Some [\<lparr>ent_className = ''MessageEntityMentionName'',
                               ent_userId = Some (Num 777)\<rparr>]\<rparr>))
     123 0 0 emptyHandler) = [demoGroupReply] \<and>
   snd (handleIncomingMessage (demoClient True)
     (Some (demoMessage demoChannel 7 ''hello @Alice!'')) 123 0 0 emptyHandler) = [demoGroupReply] \<and>
   handleIncomingMessage (demoClient True)
     (Some (demoMessage demoChannel 8 ''hello all'')) 123 0 0 emptyHandler = (emptyHandler, [])"
proof -
  let ?c = "demoClient True"
  let ?reply = "(demoMessage demoChannel 9 ''thanks'')
          \<lparr>replyTo := True, getReplyMessage := Returns (Some (demoOwnMessage (demoPeer 777)))\<rparr>"
  let ?replyN = "(demoMessage demoChannel 9 ''thanks'')
          \<lparr>replyTo := True, getReplyMessage := Returns (Some (demoOwnMessage (demoNativePeer 777)))\<rparr>"
  let ?ent = "(demoMessage demoChannel 10 ''ping'')
          \<lparr>entities := Some [\<lparr>ent_className = ''MessageEntityMentionName'',
                               ent_userId = Some (BigInteger 6 777)\<rparr>]\<rparr>"
  let ?entN = "(demoMessage demoChannel 10 ''ping'')
          \<lparr>entities := Some [\<lparr>ent_className = ''MessageEntityMentionName'',
                               ent_userId = Some (Num 777)\<rparr>]\<rparr>"
  have v: "idValue (BigInteger 2 777) = idValue (me_id demoMe)"
    by (simp add: demoMe_def)
  have differ: "\<not> sameId (BigInteger 2 777) (me_id demoMe)" "\<not> sameId (BigInteger 6 777) (me_id demoMe)"
    by (simp_all add: demoMe_def sameId_objects)
  have own: "\<not> isMessageFromSelf (demoOwnMessage (demoPeer 777)) (me_id demoMe)"
    using differ(1)
    by (simp add: isMessageFromSelf_def sameUser_def extractUserId_def demoOwnMessage_def
          demoSenderId_def demoPeer_def)
  have r: "\<not> isReplyToAccount ?reply ?c"
    using own by (simp add: isReplyToAccount_def demoMessage_def demoClient_def)
  have m: "\<not> isAccountMentioned ?reply (me_id demoMe) (me_username demoMe)"
    "\<not> isAccountMentioned ?ent (me_id demoMe) (me_username demoMe)"
    using differ(2) by (simp_all add: demo_defs cls_defs)
  have r': "\<not> isReplyToAccount ?ent ?c"
    by (simp add: isReplyToAccount_def demoMessage_def)
  have a9: "admit ?c (Some ?reply) 123 emptyHandler =
      Inr \<lparr>adm_message = ?reply, adm_me = demoMe, adm_chat = demoChannel,
           adm_chatId = ''-1001'', adm_messageId = ''9''\<rparr>"
    by (simp add: admit_def demo_defs cls_defs str_defs st_defs)
  have a10: "admit ?c (Some ?ent) 123 emptyHandler =
      Inr \<lparr>adm_message = ?ent, adm_me = demoMe, adm_chat = demoChannel,
           adm_chatId = ''-1001'', adm_messageId = ''10''\<rparr>"
    by (simp add: admit_def demo_defs cls_defs str_defs st_defs)
  have h9: "handleIncomingMessage ?c (Some ?reply) 123 0 0 emptyHandler = (emptyHandler, [])"
    using r m(1)
    by (simp add: handleIncomingMessage_def a9 dispatch_def demo_channel_facts Let_def)
  have h10: "handleIncomingMessage ?c (Some ?ent) 123 0 0 emptyHandler = (emptyHandler, [])"
    using r' m(2)
    by (simp add: handleIncomingMessage_def a10 dispatch_def demo_channel_facts Let_def)
  have n9: "snd (handleIncomingMessage demoNativeClient (Some ?replyN) 123 0 0 emptyHandler) =
      [demoGroupReply]"
    by (simp add: run_defs demo_defs demo_id_defs str_defs cls_defs st_defs)
  have n10: "snd (handleIncomingMessage demoNativeClient (Some ?entN) 123 0 0 emptyHandler) =
      [demoGroupReply]"
    by (simp add: run_defs demo_defs demo_id_defs str_defs cls_defs st_defs)
  have t7: "snd (handleIncomingMessage ?c (Some (demoMessage demoChannel 7 ''hello @Alice!'')) 123 0 0
      emptyHandler) = [demoGroupReply]"
    by (simp add: run_defs demo_defs demo_id_defs str_defs cls_defs st_defs)
  have t8: "handleIncomingMessage ?c (Some (demoMessage demoChannel 8 ''hello all'')) 123 0 0
      emptyHandler = (emptyHandler, [])"
    by (simp add: run_defs demo_defs demo_id_defs str_defs cls_defs st_defs)
  from v r h9 n9 h10 n10 t7 t8 show ?thesis by (intro conjI)
qed

section \<open>The exclusions\<close>

text \<open>
  C4. A message that is not flagged outgoing, in the account's chat with itself, whose
  \<open>fromId\<close> carries the account's own id 777:
  \<^item> with the two ids objects of the client library (each its own object),
    \<open>isMessageFromSelf\<close> is false and the direct-message reply is sent;
  \<^item> with the ids a number and a native bigint, the handler returns at the self check and
    nothing is sent.
  The other two exclusions and the order of the three: a message whose author the
  transport resolves to a bot is turned away at the bot check; a text of white space only
  (a space, U+3000, U+2003, U+FEFF and a line feed) at the text check; a blank message from
  a bot that is from the account itself at the self check, and a blank message from a bot at
  the bot check.
\<close>

theorem self_exclusion_object_ids:
  "idValue (BigInteger 2 777) = idValue (me_id demoMe) \<and>
   \<not> isMessageFromSelf ((demoMessage demoSaved 4 ''note to self'')
          \<lparr>senderId := Some demoSenderId, fromId := Some (demoPeer 777)\<rparr>)
       (me_id demoMe) \<and>
   handleIncomingMessage (demoClient True)
     (Some ((demoMessage demoSaved 4 ''note to self'')
          \<lparr>senderId := Some demoSenderId, fromId := Some (demoPeer 777)\<rparr>))
     123 0 0 emptyHandler =
     (\<lparr>repliedChats = [''123_777'' \<mapsto> 0], processingMessages = {},
       cleanupTimers = [(30000, ''123_777_4'')]\<rparr>,
      [\<lparr>out_chat = demoSaved, out_message = codeUnits ''Away right now'', out_replyTo = None\<rparr>]) \<and>
   admit demoNativeClient
     (Some ((demoMessage demoSaved 4 ''note to self'')
          \<lparr>senderId := Some demoSenderId, fromId := Some (demoNativePeer 777)\<rparr>))
     123 emptyHandler = Inl FromSelf \<and>
   handleIncomingMessage demoNativeClient
     (Some ((demoMessage demoSaved 4 ''note to self'')
          \<lparr>senderId := Some demoSenderId, fromId := Some (demoNativePeer 777)\<rparr>))
     123 0 0 emptyHandler = (emptyHandler, []) \<and>
   admit demoBotClient
     (Some ((demoMessage demoUser 5 ''buy now'')\<lparr>fromId := Some (demoPeer 999)\<rparr>))
     123 emptyHandler = Inl FromBot \<and>
   admit (demoClient True)
     (Some ((demoMessage demoUser 6 [])\<lparr>msg_text := [32, 12288, 8195, 65279, 10]\<rparr>))
     123 emptyHandler = Inl EmptyText \<and>
   admit demoNativeClient
     (Some ((demoMessage demoSaved 4 '' '')
        \<lparr>fromId := Some (demoNativePeer 777), sender := Some \<lparr>is_bot = True\<rparr>\<rparr>))
     123 emptyHandler = Inl FromSelf \<and>
   admit (demoClient True)
     (Some ((demoMessage demoUser 5 '' '')\<lparr>sender := Some \<lparr>is_bot = True\<rparr>\<rparr>))
     123 emptyHandler = Inl FromBot"
proof -
  let ?c = "demoClient True"
  let ?self = "(demoMessage demoSaved 4 ''note to self'')
          \<lparr>senderId := Some demoSenderId, fromId := Some (demoPeer 777)\<rparr>"
  let ?selfN = "(demoMessage demoSaved 4 ''note to self'')
          \<lparr>senderId := Some demoSenderId, fromId := Some (demoNativePeer 777)\<rparr>"
  have v: "idValue (BigInteger 2 777) = idValue (me_id demoMe)"
    by (simp add: demoMe_def)
  have differ: "\<not> sameId (BigInteger 2 777) (me_id demoMe)"
    by (simp add: demoMe_def sameId_objects)
  have same: "sameId (Num 777) (BigInt 777)"
    by (rule sameId_number_bigint[of 777]) simp_all
  have s: "\<not> isMessageFromSelf ?self (me_id demoMe)"
    using differ
    by (simp add: isMessageFromSelf_def sameUser_def extractUserId_def demoMessage_def
          demoSenderId_def demoPeer_def)
  have sN: "isMessageFromSelf ?selfN (BigInt 777)"
    using same
    by (simp add: isMessageFromSelf_def sameUser_def extractUserId_def demoMessage_def
          demoSenderId_def demoNativePeer_def)
  have h: "handleIncomingMessage ?c (Some ?self) 123 0 0 emptyHandler =
     (\<lparr>repliedChats = [''123_777'' \<mapsto> 0], processingMessages = {},
       cleanupTimers = [(30000, ''123_777_4'')]\<rparr>,
      [\<lparr>out_chat = demoSaved, out_message = codeUnits ''Away right now'', out_replyTo = None\<rparr>])"
    by (simp add: run_defs demo_defs demo_id_defs str_defs cls_defs st_defs)
  have aN: "admit demoNativeClient (Some ?selfN) 123 emptyHandler = Inl FromSelf"
    using sN by (simp add: admit_def demoNativeClient_def demoClient_def demoMessage_def)
  then have hN: "handleIncomingMessage demoNativeClient (Some ?selfN) 123 0 0 emptyHandler =
      (emptyHandler, [])"
    by (simp add: handleIncomingMessage_def)
  have bot: "admit demoBotClient
     (Some ((demoMessage demoUser 5 ''buy now'')\<lparr>fromId := Some (demoPeer 999)\<rparr>))
     123 emptyHandler = Inl FromBot"
    by (simp add: admit_def demo_defs demo_id_defs cls_defs)
  have blank: "admit ?c
     (Some ((demoMessage demoUser 6 [])\<lparr>msg_text := [32, 12288, 8195, 65279, 10]\<rparr>))
     123 emptyHandler = Inl EmptyText"
    by (simp add: admit_def demo_defs cls_defs)
  have o1: "admit demoNativeClient
     (Some ((demoMessage demoSaved 4 '' '')
        \<lparr>fromId := Some (demoNativePeer 777), sender := Some \<lparr>is_bot = True\<rparr>\<rparr>))
     123 emptyHandler = Inl FromSelf"
    by (simp add: admit_def demo_defs demo_id_defs cls_defs)
  have o2: "admit ?c
     (Some ((demoMessage demoUser 5 '' '')\<lparr>sender := Some \<lparr>is_bot = True\<rparr>\<rparr>))
     123 emptyHandler = Inl FromBot"
    by (simp add: admit_def demo_defs cls_defs)
  from v s h aN hN bot blank o1 o2 show ?thesis by (intro conjI)
qed

section \<open>The cooldown store and group replies\<close>

text \<open>
  C5. For a message whose chat is not a one-to-one chat, the calls of \<open>sendMessage\<close> are
  the same whatever the cooldown store holds, and the run leaves the store as it was. So a
  group message that passes the exclusions and the in-flight check and carries a trigger is
  answered whatever the store holds.
\<close>

theorem group_reply_ignores_cooldown:
  assumes chat: "getChat message = Returns (Some chat)" and grp: "\<not> isDM chat"
  shows "snd (handleIncomingMessage client (Some message) accountId t1 t2 (st\<lparr>repliedChats := rc\<rparr>)) =
         snd (handleIncomingMessage client (Some message) accountId t1 t2 st) \<and>
         repliedChats (fst (handleIncomingMessage client (Some message) accountId t1 t2 st)) =
         repliedChats st \<and>
         (admit client (Some message) accountId st = Inr a \<and> isGroup chat \<and>
          getAccountSettings client accountId = Returns (Some s) \<and>
          autoReplyGroupsEnabled s \<and> autoReplyGroupsMessage s \<noteq> [] \<and>
          (isAccountMentioned message (me_id (adm_me a)) (me_username (adm_me a)) \<or>
           isReplyToAccount message client) \<longrightarrow>
            snd (handleIncomingMessage client (Some message) accountId t1 t2 (st\<lparr>repliedChats := rc\<rparr>)) =
              [\<lparr>out_chat = chat, out_message = autoReplyGroupsMessage s, out_replyTo = None\<rparr>])"
proof -
  have indep: "snd (handleIncomingMessage client (Some message) accountId t1 t2 (st\<lparr>repliedChats := rc\<rparr>)) =
         snd (handleIncomingMessage client (Some message) accountId t1 t2 st) \<and>
         repliedChats (fst (handleIncomingMessage client (Some message) accountId t1 t2 st)) =
         repliedChats st"
  proof (cases "admit client (Some message) accountId st")
    case (Inl r)
    then show ?thesis by (simp add: handleIncomingMessage_def)
  next
    case (Inr a)
    from admit_Inr_iff[OF Inr] chat have "adm_chat a = chat" by auto
    with grp have nd: "\<not> isDM (adm_chat a)" by simp
    obtain st1 r where d: "dispatch client accountId a t1 st = (st1, r)"
      by (cases "dispatch client accountId a t1 st") auto
    then have d': "dispatch client accountId a t1 (st\<lparr>repliedChats := rc\<rparr>) = (st1\<lparr>repliedChats := rc\<rparr>, r)"
      using dispatch_not_dm_repliedChats[OF nd, where client = client and accountId = accountId
          and now = t1 and st = st and rc = rc] by simp
    have fr: "repliedChats st1 = repliedChats st"
      using dispatch_not_dm_frame[OF nd, where client = client and accountId = accountId
          and now = t1 and st = st] d by simp
    show ?thesis
    proof (cases r)
      case (Inl x)
      with Inr d d' fr show ?thesis by (simp add: handleIncomingMessage_def)
    next
      case (Inr p)
      with nd d have "pend_surface p = GroupMessage"
        using dispatch_not_dm_surface by blast
      with \<open>admit client (Some message) accountId st = Inr a\<close> Inr d d' fr show ?thesis
        by (simp add: handleIncomingMessage_def complete_group_repliedChats)
    qed
  qed
  have trig: "snd (handleIncomingMessage client (Some message) accountId t1 t2 st) =
              [\<lparr>out_chat = chat, out_message = autoReplyGroupsMessage s, out_replyTo = None\<rparr>]"
    if h: "admit client (Some message) accountId st = Inr a \<and> isGroup chat \<and>
          getAccountSettings client accountId = Returns (Some s) \<and>
          autoReplyGroupsEnabled s \<and> autoReplyGroupsMessage s \<noteq> [] \<and>
          (isAccountMentioned message (me_id (adm_me a)) (me_username (adm_me a)) \<or>
           isReplyToAccount message client)"
  proof -
    from h have adm: "admit client (Some message) accountId st = Inr a" by simp
    from admit_Inr_iff[OF adm] chat have f: "adm_chat a = chat" "adm_message a = message" by auto
    from dispatch_group[of a client accountId s t1 st] f grp h
    have "dispatch client accountId a t1 st =
            (markMessageProcessing t1 accountId (adm_chatId a) (adm_messageId a) st,
             Inr \<lparr>pend_surface = GroupMessage, pend_chatId = adm_chatId a,
                  pend_messageId = adm_messageId a,
                  pend_out = \<lparr>out_chat = chat, out_message = autoReplyGroupsMessage s,
                              out_replyTo = None\<rparr>\<rparr>)"
      by auto
    with adm show ?thesis by (simp add: handleIncomingMessage_def)
  qed
  from indep trig show ?thesis by simp
qed


text \<open>
  The scenario: with a cooldown entry stored under the supergroup's own key, the mention in
  the supergroup is answered all the same.
\<close>

theorem group_reply_ignores_cooldown_witness:
  "snd (handleIncomingMessage (demoClient True) (Some (demoMessage demoChannel 7 ''hello @Alice!'')) 123 1000 1000
        (emptyHandler\<lparr>repliedChats := [''123_-1001'' \<mapsto> 0]\<rparr>)) =
     [\<lparr>out_chat = demoChannel, out_message = codeUnits ''Busy'', out_replyTo = None\<rparr>] \<and>
   repliedChats (fst (handleIncomingMessage (demoClient True) (Some (demoMessage demoChannel 7 ''hello @Alice!'')) 123 1000 1000
        emptyHandler)) = repliedChats emptyHandler"
proof -
  let ?c = "demoClient True"
  let ?m = "demoMessage demoChannel 7 ''hello @Alice!''"
  let ?a = "\<lparr>adm_message = ?m, adm_me = demoMe, adm_chat = demoChannel,
             adm_chatId = ''-1001'', adm_messageId = ''7''\<rparr>"
  have c7: "getChat ?m = Returns (Some demoChannel)" by (rule demo_channel_facts)
  have grp: "\<not> isDM demoChannel" by (rule demo_channel_facts)
  note g = group_reply_ignores_cooldown[OF c7 grp, where client = ?c and accountId = 123
      and st = emptyHandler and rc = "[''123_-1001'' \<mapsto> 0]" and s = demoSettings and a = ?a
      and ?t1.0 = 1000 and ?t2.0 = 1000]
  have p: "admit ?c (Some ?m) 123 emptyHandler = Inr ?a \<and> isGroup demoChannel \<and>
          getAccountSettings ?c 123 = Returns (Some demoSettings) \<and>
          autoReplyGroupsEnabled demoSettings \<and> autoReplyGroupsMessage demoSettings \<noteq> [] \<and>
          (isAccountMentioned ?m (me_id (adm_me ?a)) (me_username (adm_me ?a)) \<or>
           isReplyToAccount ?m ?c)"
    by (simp add: demo_channel_admit demo_channel_facts demo_mentions)
  from g p have "snd (handleIncomingMessage ?c (Some ?m) 123 1000 1000
        (emptyHandler\<lparr>repliedChats := [''123_-1001'' \<mapsto> 0]\<rparr>)) =
     [\<lparr>out_chat = demoChannel, out_message = autoReplyGroupsMessage demoSettings, out_replyTo = None\<rparr>]"
    by blast
  moreover from g have "repliedChats (fst (handleIncomingMessage ?c (Some ?m) 123 1000 1000
        emptyHandler)) = repliedChats emptyHandler"
    by blast
  ultimately show ?thesis by (simp add: demo_channel_facts)
qed


section \<open>Release and expiry of the in-flight marker\<close>

text \<open>
  C6. The marker of (account, chat, message):
  \<^item> is absent once \<open>complete\<close> has run, whether \<open>sendMessage\<close> resolved or threw;
  \<^item> so a handler run leaves \<open>processingMessages\<close> as it found it, on every path;
  \<^item> is removed by its own timer, 30 seconds after \<open>markMessageProcessing\<close>, also when
    nothing else removed it;
  \<^item> in any interleaving of handler runs and timer runs that starts from the empty state and
    makes all its steps by time \<open>T\<close>, no marker is left once the timers due by
    \<open>T + 30 s\<close> have run.
\<close>

theorem marker_released_and_expires:
  "getMessageKey accountId (pend_chatId p) (pend_messageId p) \<notin>
     processingMessages (complete client accountId p now st) \<and>
   processingMessages (fst (handleIncomingMessage client event accountId t1 t2 st)) =
     processingMessages st \<and>
   getMessageKey accountId chatId messageId \<notin>
     processingMessages (fireTimers (now + 30000)
        (markMessageProcessing now accountId chatId messageId st)) \<and>
   ((\<forall>e\<in>set schedule. schedTime e \<le> T) \<and> T + 30000 \<le> t' \<longrightarrow>
      processingMessages (fireTimers t'
        (fst (snd (runSchedule client accountId schedule (tasks, emptyHandler, []))))) = {})"
proof (intro conjI impI)
  show "getMessageKey accountId (pend_chatId p) (pend_messageId p) \<notin>
     processingMessages (complete client accountId p now st)"
    by (rule complete_releases)
  show "processingMessages (fst (handleIncomingMessage client event accountId t1 t2 st)) =
     processingMessages st"
    by (rule handle_processing)
  show "getMessageKey accountId chatId messageId \<notin>
     processingMessages (fireTimers (now + 30000)
        (markMessageProcessing now accountId chatId messageId st))"
    by (rule mark_then_fire)
next
  assume h: "(\<forall>e\<in>set schedule. schedTime e \<le> T) \<and> T + 30000 \<le> t'"
  have "markersCovered T (fst (snd (runSchedule client accountId schedule (tasks, emptyHandler, []))))"
    using h by (intro covered_run) (simp_all add: covered_empty)
  with h show "processingMessages (fireTimers t'
        (fst (snd (runSchedule client accountId schedule (tasks, emptyHandler, []))))) = {}"
    by (simp add: covered_fire_all)
qed


text \<open>
  The scenario: the handler has acquired the marker of message 1 and is waiting for the
  send, which never settles; the timers due at 30001 ms remove the marker.
\<close>

theorem marker_released_and_expires_witness:
  "processingMessages (fst (snd (runSchedule (demoClient True) 123 [Run 0 0, Run 0 1]
       ([Arrived (Some (demoMessage demoUser 1 ''hi''))], emptyHandler, [])))) = {''123_555_1''} \<and>
   processingMessages (fireTimers 30001 (fst (snd (runSchedule (demoClient True) 123 [Run 0 0, Run 0 1]
       ([Arrived (Some (demoMessage demoUser 1 ''hi''))], emptyHandler, []))))) = {}"
proof -
  have acquired: "processingMessages (fst (snd (runSchedule (demoClient True) 123 [Run 0 0, Run 0 1]
       ([Arrived (Some (demoMessage demoUser 1 ''hi''))], emptyHandler, [])))) = {''123_555_1''}"
    by (simp add: runSchedule_def admit_def dispatch_def Let_def demo_defs str_defs cls_defs st_defs)
  have h: "(\<forall>e\<in>set [Run 0 0, Run 0 1]. schedTime e \<le> 1) \<and> (1 :: int) + 30000 \<le> 30001"
    by simp
  note t = marker_released_and_expires[where schedule = "[Run 0 0, Run 0 1]" and T = 1 and t' = 30001
        and client = "demoClient True" and accountId = 123
        and tasks = "[Arrived (Some (demoMessage demoUser 1 ''hi''))]",
        THEN conjunct2, THEN conjunct2, THEN conjunct2, THEN mp, OF h]
  from acquired t show ?thesis by (rule conjI)
qed


section \<open>A failed send records no cooldown\<close>

text \<open>
  C10. A direct message that passes the exclusions and the in-flight check, for an account
  with direct-message auto-reply enabled and a text configured, whose \<open>sendMessage\<close>
  throws:
  \<^item> the run leaves the cooldown store as the lookup left it, and so unchanged when the chat
    had no entry;
  \<^item> when the send was attempted, the chat has no entry afterwards, and the next direct
    message of the same chat that passes the exclusions and the in-flight check is answered
    again, at whatever time it comes.
\<close>

theorem failed_send_keeps_chat_eligible:
  assumes adm: "admit client event accountId st = Inr a"
    and dm: "isDM (adm_chat a)"
    and cfg: "getAccountSettings client accountId = Returns (Some s)"
      "autoReplyDmEnabled s" "autoReplyDmMessage s \<noteq> []"
    and fail: "sendMessage client \<lparr>out_chat = adm_chat a, out_message = autoReplyDmMessage s,
                                    out_replyTo = None\<rparr> = Throws"
  shows "repliedChats (fst (handleIncomingMessage client event accountId t1 t2 st)) =
           repliedChats (snd (hasRepliedToChatRecently t1 accountId (adm_chatId a) st)) \<and>
         (repliedChats st (getChatKey accountId (adm_chatId a)) = None \<longrightarrow>
            repliedChats (fst (handleIncomingMessage client event accountId t1 t2 st)) = repliedChats st) \<and>
         (snd (handleIncomingMessage client event accountId t1 t2 st) \<noteq> [] \<longrightarrow>
            repliedChats (fst (handleIncomingMessage client event accountId t1 t2 st))
              (getChatKey accountId (adm_chatId a)) = None \<and>
            (admit client event' accountId (fst (handleIncomingMessage client event accountId t1 t2 st)) = Inr a' \<and>
             isDM (adm_chat a') \<and> adm_chatId a' = adm_chatId a \<longrightarrow>
               snd (handleIncomingMessage client event' accountId t3 t4
                      (fst (handleIncomingMessage client event accountId t1 t2 st))) =
                 [\<lparr>out_chat = adm_chat a', out_message = autoReplyDmMessage s, out_replyTo = None\<rparr>]))"
proof -
  let ?H = "handleIncomingMessage client event accountId t1 t2 st"
  let ?L = "hasRepliedToChatRecently t1 accountId (adm_chatId a) st"
  let ?key = "getChatKey accountId (adm_chatId a)"
  have frame: "repliedChats (fst ?H) = repliedChats (snd ?L)"
  proof (cases "fst ?L")
    case True
    from dispatch_dm_blocked[OF dm cfg True] adm show ?thesis
      by (simp add: handleIncomingMessage_def)
  next
    case False
    from dispatch_dm_clear[OF dm cfg, of t1 st] False adm fail show ?thesis
      by (simp add: handleIncomingMessage_def complete_failed_repliedChats markMessageProcessing_def Let_def)
  qed
  have absent: "repliedChats (fst ?H) = repliedChats st" if "repliedChats st ?key = None"
    using frame lookup_absent[OF that, of t1] by simp
  have sent: "fst ?L = False" if "snd ?H \<noteq> []"
  proof (rule ccontr)
    assume "fst ?L \<noteq> False"
    then have "fst ?L" by simp
    from dispatch_dm_blocked[OF dm cfg this] adm that show False
      by (simp add: handleIncomingMessage_def)
  qed
  have none: "repliedChats (fst ?H) ?key = None" if "snd ?H \<noteq> []"
    using frame lookup_clear_entry[OF sent[OF that]] by simp
  have again: "snd (handleIncomingMessage client event' accountId t3 t4 (fst ?H)) =
                 [\<lparr>out_chat = adm_chat a', out_message = autoReplyDmMessage s, out_replyTo = None\<rparr>]"
    if s: "snd ?H \<noteq> []"
      and n: "admit client event' accountId (fst ?H) = Inr a' \<and> isDM (adm_chat a') \<and> adm_chatId a' = adm_chatId a"
  proof -
    from n have dm': "isDM (adm_chat a')" and adm': "admit client event' accountId (fst ?H) = Inr a'"
      and same: "adm_chatId a' = adm_chatId a" by simp_all
    from none[OF s] same have "repliedChats (fst ?H) (getChatKey accountId (adm_chatId a')) = None"
      by simp
    then have "fst (hasRepliedToChatRecently t3 accountId (adm_chatId a') (fst ?H)) = False"
      by (simp add: lookup_absent)
    from dispatch_dm_clear[OF dm' cfg this] adm' show ?thesis
      by (simp add: handleIncomingMessage_def)
  qed
  from frame absent none again show ?thesis by blast
qed

text \<open>
  The scenario: the send for message 1 fails; message 2, a minute later, is answered.
\<close>

theorem failed_send_keeps_chat_eligible_witness:
  "handleIncomingMessage (demoClient False) (Some (demoMessage demoUser 1 ''hi'')) 123 0 0 emptyHandler =
     (\<lparr>repliedChats = Map.empty, processingMessages = {},
       cleanupTimers = [(30000, ''123_555_1'')]\<rparr>, [demoDmReply]) \<and>
   snd (handleIncomingMessage (demoClient False) (Some (demoMessage demoUser 2 ''hi again'')) 123 60000 60000
     (fst (handleIncomingMessage (demoClient False) (Some (demoMessage demoUser 1 ''hi'')) 123 0 0 emptyHandler))) =
     [demoDmReply]"
proof -
  let ?c = "demoClient False"
  let ?m1 = "demoMessage demoUser 1 ''hi''"
  let ?m2 = "demoMessage demoUser 2 ''hi again''"
  let ?a1 = "\<lparr>adm_message = ?m1, adm_me = demoMe, adm_chat = demoUser,
           adm_chatId = ''555'', adm_messageId = ''1''\<rparr>"
  let ?a2 = "\<lparr>adm_message = ?m2, adm_me = demoMe, adm_chat = demoUser,
           adm_chatId = ''555'', adm_messageId = ''2''\<rparr>"
  let ?st1 = "fst (handleIncomingMessage ?c (Some ?m1) 123 0 0 emptyHandler)"
  have a1: "admit ?c (Some ?m1) 123 emptyHandler = Inr ?a1"
    by (simp add: admit_def demo_defs cls_defs str_defs st_defs)
  have dm: "isDM (adm_chat ?a1)" by (simp add: isDM_def demoUser_def)
  have cfg: "getAccountSettings ?c 123 = Returns (Some demoSettings)"
    "autoReplyDmEnabled demoSettings" "autoReplyDmMessage demoSettings \<noteq> []"
    by (simp_all add: demo_channel_facts)
  have fail: "sendMessage ?c \<lparr>out_chat = adm_chat ?a1, out_message = autoReplyDmMessage demoSettings,
                                    out_replyTo = None\<rparr> = Throws"
    by (simp add: demoClient_def)
  have a2: "admit ?c (Some ?m2) 123 ?st1 = Inr ?a2"
    unfolding demo_failed_reply by (simp add: admit_def demo_defs cls_defs str_defs st_defs)
  note t = failed_send_keeps_chat_eligible[OF a1 dm cfg fail, where ?t1.0 = 0 and ?t2.0 = 0
      and event' = "Some ?m2" and a' = ?a2 and ?t3.0 = 60000 and ?t4.0 = 60000]
  have dm2: "isDM (adm_chat ?a2)" by (simp add: isDM_def demoUser_def)
  have same: "adm_chatId ?a2 = adm_chatId ?a1" by simp
  have sent1: "snd (handleIncomingMessage ?c (Some ?m1) 123 0 0 emptyHandler) \<noteq> []"
    by (simp add: demo_failed_reply)
  from t sent1 a2 dm2 same
  have "snd (handleIncomingMessage ?c (Some ?m2) 123 60000 60000 ?st1) =
          [\<lparr>out_chat = adm_chat ?a2, out_message = autoReplyDmMessage demoSettings, out_replyTo = None\<rparr>]"
    by blast
  then have "snd (handleIncomingMessage ?c (Some ?m2) 123 60000 60000 ?st1) = [demoDmReply]"
    by (simp add: demo_channel_facts demoDmReply_def)
  then show ?thesis by (simp add: demo_failed_reply)
qed


section \<open>The form of the reply\<close>

text \<open>
  C7. The event-driven handler answers a group trigger (here the mention of \<open>@alice\<close> in the
  supergroup) with a plain send: the options carry no \<open>replyTo\<close>. The polling service
  answers the same trigger with \<open>replyTo\<close> set to the triggering message. A direct message
  is answered with a plain send by both.
\<close>

theorem group_reply_not_threaded:
  "snd (handleIncomingMessage (demoClient True) (Some (demoMessage demoChannel 7 ''hello @Alice!'')) 123 0 0 emptyHandler) =
     [\<lparr>out_chat = demoChannel, out_message = codeUnits ''Busy'', out_replyTo = None\<rparr>] \<and>
   pollReply True (Returns ()) demoSettings demoChannel (demoMessage demoChannel 7 ''hello @Alice!'') True =
     [\<lparr>out_chat = demoChannel, out_message = codeUnits ''Busy'',
       out_replyTo = Some (demoMessage demoChannel 7 ''hello @Alice!'')\<rparr>] \<and>
   snd (handleIncomingMessage (demoClient True) (Some (demoMessage demoUser 1 ''hi'')) 123 0 0 emptyHandler) =
     [\<lparr>out_chat = demoUser, out_message = codeUnits ''Away right now'', out_replyTo = None\<rparr>] \<and>
   pollReply True (Returns ()) demoSettings demoUser (demoMessage demoUser 1 ''hi'') False =
     [\<lparr>out_chat = demoUser, out_message = codeUnits ''Away right now'', out_replyTo = None\<rparr>]"
proof -
  have "dispatch (demoClient True) 123
          \<lparr>adm_message = demoMessage demoChannel 7 ''hello @Alice!'', adm_me = demoMe,
           adm_chat = demoChannel, adm_chatId = ''-1001'', adm_messageId = ''7''\<rparr> 0 emptyHandler =
        (markMessageProcessing 0 123 ''-1001'' ''7'' emptyHandler,
         Inr \<lparr>pend_surface = GroupMessage, pend_chatId = ''-1001'', pend_messageId = ''7'',
              pend_out = \<lparr>out_chat = demoChannel, out_message = codeUnits ''Busy'', out_replyTo = None\<rparr>\<rparr>)"
    by (simp add: dispatch_def Let_def demo_channel_facts demo_mentions)
  then have "snd (handleIncomingMessage (demoClient True)
          (Some (demoMessage demoChannel 7 ''hello @Alice!'')) 123 0 0 emptyHandler) =
     [\<lparr>out_chat = demoChannel, out_message = codeUnits ''Busy'', out_replyTo = None\<rparr>]"
    by (simp add: handleIncomingMessage_def demo_channel_admit)
  moreover have "pollReply True (Returns ()) demoSettings demoChannel
        (demoMessage demoChannel 7 ''hello @Alice!'') True =
     [\<lparr>out_chat = demoChannel, out_message = codeUnits ''Busy'',
       out_replyTo = Some (demoMessage demoChannel 7 ''hello @Alice!'')\<rparr>]"
    by (simp add: pollReply_def sendReplyWithDelay_def demoChannel_def demoSettings_def)
  moreover have "snd (handleIncomingMessage (demoClient True) (Some (demoMessage demoUser 1 ''hi''))
        123 0 0 emptyHandler) =
     [\<lparr>out_chat = demoUser, out_message = codeUnits ''Away right now'', out_replyTo = None\<rparr>]"
    by (simp add: demo_first_reply demoDmReply_def)
  moreover have "pollReply True (Returns ()) demoSettings demoUser (demoMessage demoUser 1 ''hi'') False =
     [\<lparr>out_chat = demoUser, out_message = codeUnits ''Away right now'', out_replyTo = None\<rparr>]"
    by (simp add: pollReply_def sendReplyWithDelay_def demoUser_def demoSettings_def)
  ultimately show ?thesis by (intro conjI)
qed

section \<open>The health check\<close>

text \<open>
  C8. \<open>start\<close> never calls \<open>performHealthCheck\<close> itself. When the query succeeds it
  arms the interval at the time \<open>now\<close> at which it starts the loops, and the
  health check then runs at \<open>now + 120 s\<close>, \<open>now + 240 s\<close>, and so on: the first run
  comes one full interval after the start.
\<close>

theorem health_check_schedule:
  "PerformHealthCheck \<notin> set (snd (start w query now random svc)) \<and>
   (query = Returns rows \<longrightarrow>
      healthCheckInterval (fst (start w query now random svc)) = Some (now + 120000) \<and>
      healthCheckTimes (fst (start w query now random svc)) n =
        map (\<lambda>k. now + (int k + 1) * 120000) [0..<n])"
proof (intro conjI impI)
  show "PerformHealthCheck \<notin> set (snd (start w query now random svc))"
    by (cases query) (auto simp: start_def)
next
  assume h: "query = Returns rows"
  then show i: "healthCheckInterval (fst (start w query now random svc)) = Some (now + 120000)"
    by (simp add: start_def startHealthCheckLoop_def HEALTH_CHECK_INTERVAL_def)
  show "healthCheckTimes (fst (start w query now random svc)) n =
        map (\<lambda>k. now + (int k + 1) * 120000) [0..<n]"
    by (simp add: healthCheckTimes_def i HEALTH_CHECK_INTERVAL_def algebra_simps)
qed

text \<open>
  The scenario: two accounts at start. \<open>start\<close> connects both and calls nothing else; the
  health check runs first at 120000 ms.
\<close>

theorem health_check_schedule_witness:
  "PerformHealthCheck \<notin> set (snd (start (demoSvcEnv True) (Returns [1, 2]) 0 (0, 2) newService)) \<and>
   healthCheckTimes (fst (start (demoSvcEnv True) (Returns [1, 2]) 0 (0, 2) newService)) 3 =
     [120000, 240000, 360000]"
proof -
  have ok: "Returns [1, 2] = Returns [1, 2 :: int]"
    by simp
  note t = health_check_schedule[where w = "demoSvcEnv True" and query = "Returns [1, 2]"
      and rows = "[1, 2]" and now = 0 and random = "(0, 2)" and svc = newService and n = 3]
  from t ok have "healthCheckTimes (fst (start (demoSvcEnv True) (Returns [1, 2]) 0 (0, 2) newService)) 3 =
        map (\<lambda>k. 0 + (int k + 1) * 120000) [0..<3]" by blast
  moreover from t
  have "PerformHealthCheck \<notin> set (snd (start (demoSvcEnv True) (Returns [1, 2]) 0 (0, 2) newService))"
    by blast
  ultimately show ?thesis by (simp add: upt_rec)
qed

text \<open>
  What \<open>start\<close> does at time 0 is to connect the accounts; the first two health checks
  come at 120000 and 240000 ms, none at 0.
\<close>

theorem health_check_not_immediate_counterexample:
  "snd (start (demoSvcEnv True) (Returns [1, 2]) 0 (0, 2) newService) =
     [ConnectAccount 1, ConnectAccount 2] \<and>
   healthCheckTimes (fst (start (demoSvcEnv True) (Returns [1, 2]) 0 (0, 2) newService)) 2 =
     [120000, 240000]"
  by (simp add: demo_start healthCheckTimes_def HEALTH_CHECK_INTERVAL_def upt_rec)

section \<open>The presence cycle\<close>




end
